theory Spec2Isabelle
  imports Complex_Main "HOL-Library.Word" "HOL-Library.Sublist" "HOL-Library.AList"
begin

section \<open>Python values\<close>

text \<open>
  A Python \<open>str\<close> is a sequence of Unicode code points, a \<open>bytes\<close> object a sequence of
  octets. String literals of the source are written \<open>ustr ''...''\<close>. Wall-clock readings
  (\<open>time.time()\<close>) are modelled as exact reals: the rounding of the floating-point
  subtraction is not modelled.
\<close>

type_synonym byte = "8 word"
type_synonym pystr = "nat list"

definition ustr :: "string \<Rightarrow> pystr" where
  "ustr s = map of_char s"

text \<open>\<open>str(n)\<close> and \<open>f"{n}"\<close> for an \<open>int\<close>: the decimal digits, with a leading minus sign.\<close>

fun digits :: "nat \<Rightarrow> pystr" where
  "digits n = (if n < 10 then [48 + n] else digits (n div 10) @ [48 + n mod 10])"

definition py_str_int :: "int \<Rightarrow> pystr" where
  "py_str_int i = (if i < 0 then 45 # digits (nat (- i)) else digits (nat i))"

text \<open>The values \<open>json.loads\<close> produces and the engine's result dictionaries hold.\<close>

datatype pyval =
    PNone
  | PBool bool
  | PInt int
  | PFloat real
  | PStr pystr
  | PList "pyval list"
  | PDict "(pystr \<times> pyval) list"

type_synonym pydict = "(pystr \<times> pyval) list"

text \<open>\<open>d[k] = v\<close>: an existing key keeps its place and takes the new value, a new key
  goes last. \<open>d.get(k)\<close> is \<open>map_of d k\<close>.\<close>

definition setitem :: "pydict \<Rightarrow> string \<Rightarrow> pyval \<Rightarrow> pydict" where
  "setitem d k v = AList.update (ustr k) v d"

definition getitem :: "pydict \<Rightarrow> string \<Rightarrow> pyval option" where
  "getitem d k = map_of d (ustr k)"

text \<open>The message of the \<open>TypeError\<close> that \<open>result_json[key] = value\<close>
  raises when \<open>result_json\<close> is not a dictionary: a list refuses the index, any other
  value the assignment, under the name of its type.\<close>

fun py_type_name :: "pyval \<Rightarrow> string" where
  "py_type_name PNone = ''NoneType''"
| "py_type_name (PBool _) = ''bool''"
| "py_type_name (PInt _) = ''int''"
| "py_type_name (PFloat _) = ''float''"
| "py_type_name (PStr _) = ''str''"
| "py_type_name (PList _) = ''list''"
| "py_type_name (PDict _) = ''dict''"

fun item_assignment_error :: "pyval \<Rightarrow> pystr" where
  "item_assignment_error (PList xs) = ustr ''list indices must be integers or slices, not str''"
| "item_assignment_error v =
     [39] @ ustr (py_type_name v) @ ustr ''' object does not support item assignment''"

section \<open>Decoding UTF-8: \<open>bytes.decode('utf-8', errors=...)\<close>\<close>

text \<open>
  The decoder of the Python runtime, with its error spans: an invalid start byte is an
  error of one byte; a byte that cannot continue the sequence ends an error made of the
  bytes read before it; a sequence cut off by the end of the data is an error up to the
  end. \<open>errors='ignore'\<close> drops the span, \<open>errors='replace'\<close> puts U+FFFD for it.
\<close>

datatype decode_errors = Ignore | Replace

datatype utf8_unit = Scalar nat nat | Malformed nat

definition is_cont :: "byte \<Rightarrow> bool" where
  "is_cont b = (0x80 \<le> b \<and> b < 0xC0)"

definition cont_bits :: "byte \<Rightarrow> nat" where
  "cont_bits b = unat b - 0x80"

fun utf8_next :: "byte list \<Rightarrow> utf8_unit" where
  "utf8_next [] = Malformed 0"
| "utf8_next (ch # rest) =
     (if ch < 0x80 then Scalar (unat ch) 1
      else if ch < 0xC2 then Malformed 1
      else if ch < 0xE0 then
        (case rest of
           [] \<Rightarrow> Malformed 1
         | ch2 # _ \<Rightarrow>
             if \<not> is_cont ch2 then Malformed 1
             else Scalar ((unat ch - 0xC0) * 64 + cont_bits ch2) 2)
      else if ch < 0xF0 then
        (case rest of
           [] \<Rightarrow> Malformed 1
         | ch2 # rest2 \<Rightarrow>
             if \<not> is_cont ch2 \<or> (ch = 0xE0 \<and> ch2 < 0xA0) \<or> (ch = 0xED \<and> 0xA0 \<le> ch2)
             then Malformed 1
             else (case rest2 of
                 [] \<Rightarrow> Malformed 2
               | ch3 # _ \<Rightarrow>
                   if \<not> is_cont ch3 then Malformed 2
                   else Scalar ((unat ch - 0xE0) * 4096 + cont_bits ch2 * 64 + cont_bits ch3) 3))
      else if ch < 0xF5 then
        (case rest of
           [] \<Rightarrow> Malformed 1
         | ch2 # rest2 \<Rightarrow>
             if \<not> is_cont ch2 \<or> (ch = 0xF0 \<and> ch2 < 0x90) \<or> (ch = 0xF4 \<and> 0x90 \<le> ch2)
             then Malformed 1
             else (case rest2 of
                 [] \<Rightarrow> Malformed 2
               | ch3 # rest3 \<Rightarrow>
                   if \<not> is_cont ch3 then Malformed 2
                   else (case rest3 of
                       [] \<Rightarrow> Malformed 3
                     | ch4 # _ \<Rightarrow>
                         if \<not> is_cont ch4 then Malformed 3
                         else Scalar ((unat ch - 0xF0) * 262144 + cont_bits ch2 * 4096
                                      + cont_bits ch3 * 64 + cont_bits ch4) 4)))
      else Malformed 1)"

text \<open>The second argument counts the bytes of the current sequence or error span that
  are still to be skipped.\<close>

fun decode_from :: "decode_errors \<Rightarrow> nat \<Rightarrow> byte list \<Rightarrow> pystr" where
  "decode_from m k [] = []"
| "decode_from m (Suc k) (b # bs) = decode_from m k bs"
| "decode_from m 0 (b # bs) =
     (case utf8_next (b # bs) of
        Scalar cp n \<Rightarrow> cp # decode_from m (n - 1) bs
      | Malformed n \<Rightarrow>
          (case m of Ignore \<Rightarrow> [] | Replace \<Rightarrow> [0xFFFD]) @ decode_from m (n - 1) bs)"

definition decode_utf8 :: "decode_errors \<Rightarrow> byte list \<Rightarrow> pystr" where
  "decode_utf8 m bs = decode_from m 0 bs"

section \<open>The container runtime as an environment\<close>

text \<open>
  Everything the engine asks of the outside world is a call: reading the clock and the
  methods of the Docker client and container. The environment answers a call from the
  whole history of calls made so far, the call being answered last; so an answer may
  depend on anything that happened before, and any call may raise. The history is also
  the record of what the engine did.
\<close>

datatype payload = UserCode pystr | ConfigJson pyval

type_synonym archive = "(pystr \<times> payload) list"

datatype call =
    TimeNow
  | Create pystr int pystr
  | Start
  | PutArchive pystr archive
  | ExecRun pystr
  | GetResult pystr
  | Stop int
  | Remove

type_synonym trace = "call list"

datatype 'a outcome = Raises pystr | Returns 'a

record exec_result =
  exit_code :: int
  exec_output :: "byte list"

text \<open>
  \<open>collect_res\<close> answers the three steps \<open>get_archive\<close>, \<open>_extract_result_from_tar\<close> and
  \<open>json.loads\<close> at once: it raises when the file is missing, when the archive holds no
  member ending in \<open>result.json\<close>, or when the content is not UTF-8 or not JSON.
\<close>

record env =
  clock :: "trace \<Rightarrow> real"
  void_res :: "trace \<Rightarrow> unit outcome"
  exec_res :: "trace \<Rightarrow> exec_result outcome"
  collect_res :: "trace \<Rightarrow> pyval outcome"

definition now :: "env \<Rightarrow> trace \<Rightarrow> real \<times> trace" where
  "now e h = (clock e (h @ [TimeNow]), h @ [TimeNow])"

definition void_call :: "env \<Rightarrow> call \<Rightarrow> trace \<Rightarrow> unit outcome \<times> trace" where
  "void_call e c h = (void_res e (h @ [c]), h @ [c])"

definition exec_run :: "env \<Rightarrow> pystr \<Rightarrow> trace \<Rightarrow> exec_result outcome \<times> trace" where
  "exec_run e cmd h = (exec_res e (h @ [ExecRun cmd]), h @ [ExecRun cmd])"

definition get_result :: "env \<Rightarrow> trace \<Rightarrow> pyval outcome \<times> trace" where
  "get_result e h =
     (collect_res e (h @ [GetResult (ustr ''/app/result.json'')]),
      h @ [GetResult (ustr ''/app/result.json'')])"


section \<open>The judge microservice\<close>

text \<open>
  The instance attributes and the settings the engine reads. \<open>DOCKER_IMAGES\<close> and the
  settings module are configuration, taken as given. \<open>setting_compile_timeout\<close> is
  \<open>None\<close> when the settings have no attribute \<open>compile_timeout\<close>
  (\<open>getattr(setting, 'compile_timeout', 30)\<close>). \<open>cpu_quota\<close> is the value of
  \<open>int(100000 * setting.container_cpu)\<close>, a product of floats that the settings
  determine.
\<close>

record judge =
  DOCKER_IMAGES :: "pystr \<rightharpoonup> pystr"
  continue_on_timeout :: bool
  setting_compile_timeout :: "int option"
  setting_container_timeout :: int
  cpu_quota :: int
  setting_container_mem :: pystr

datatype pyexn = ValueError pystr | DockerError pystr

definition pstr :: "string \<Rightarrow> pyval" where
  "pstr s = PStr (ustr s)"

definition dict_of :: "(string \<times> pyval) list \<Rightarrow> pydict" where
  "dict_of kvs = map (\<lambda>(k, v). (ustr k, v)) kvs"

definition compile_timeout_val :: "judge \<Rightarrow> int option \<Rightarrow> int" where
  "compile_timeout_val J compile_timeout =
     (case compile_timeout of
        Some t \<Rightarrow> t
      | None \<Rightarrow> (case setting_compile_timeout J of Some t \<Rightarrow> t | None \<Rightarrow> 30))"

definition execution_timeout_val :: "judge \<Rightarrow> int option \<Rightarrow> int" where
  "execution_timeout_val J execution_timeout =
     (case execution_timeout of Some t \<Rightarrow> t | None \<Rightarrow> setting_container_timeout J)"

definition is_python :: "pystr \<Rightarrow> bool" where
  "is_python language = prefix (ustr ''python'') language"

definition user_filename :: "pystr \<Rightarrow> pystr" where
  "user_filename language =
     (if is_python language then ustr ''user.py''
      else if language = ustr ''c'' then ustr ''user.c'' else ustr ''user.cpp'')"

definition create_call :: "judge \<Rightarrow> pystr \<Rightarrow> call" where
  "create_call J image_name =
     Create image_name (cpu_quota J) (setting_container_mem J)"

text \<open>The three archives the engine uploads to \<open>/app\<close>. An archive is modelled by
  the names and the contents of its members, in their order; the mode, the type and the
  modification time of a member are not represented.\<close>

definition file_tar :: "pystr \<Rightarrow> pyval \<Rightarrow> pystr \<Rightarrow> archive" where
  "file_tar user_code config filename =
     [(filename, UserCode user_code), (ustr ''config.json'', ConfigJson config)]"

definition user_code_tar :: "pystr \<Rightarrow> pystr \<Rightarrow> archive" where
  "user_code_tar user_code filename = [(filename, UserCode user_code)]"

definition config_tar :: "pyval \<Rightarrow> archive" where
  "config_tar config = [(ustr ''config.json'', ConfigJson config)]"

text \<open>The builders \<open>_create_file_tar\<close>, \<open>_create_user_code_tar\<close> and
  \<open>_create_config_tar\<close>: each reads the clock once for every member it adds, for the
  modification time of the member.\<close>

definition create_file_tar ::
  "env \<Rightarrow> pystr \<Rightarrow> pyval \<Rightarrow> pystr \<Rightarrow> trace \<Rightarrow> archive \<times> trace" where
  "create_file_tar e user_code config filename h =
     (let (user_mtime, h1) = now e h; (config_mtime, h2) = now e h1
      in (file_tar user_code config filename, h2))"

definition create_user_code_tar :: "env \<Rightarrow> pystr \<Rightarrow> pystr \<Rightarrow> trace \<Rightarrow> archive \<times> trace" where
  "create_user_code_tar e user_code filename h =
     (let (user_mtime, h1) = now e h in (user_code_tar user_code filename, h1))"

definition create_config_tar :: "env \<Rightarrow> pyval \<Rightarrow> trace \<Rightarrow> archive \<times> trace" where
  "create_config_tar e config h =
     (let (config_mtime, h1) = now e h in (config_tar config, h1))"

text \<open>The exec commands. 39 is the single quote, 34 the double quote.\<close>

definition compile_cmd :: "int \<Rightarrow> pystr" where
  "compile_cmd t =
     ustr ''bash -c '' @ [39] @ ustr ''timeout '' @ py_str_int t @ ustr '' bash -c '' @ [34]
     @ ustr ''make clean >/dev/null 2>&1 && make build >/dev/null 2>&1'' @ [34, 39]"

definition test_cmd_plain :: pystr where
  "test_cmd_plain = ustr ''bash -c '' @ [39] @ ustr ''make test >/dev/null 2>&1'' @ [39]"

definition test_cmd_timeout :: "int \<Rightarrow> pystr" where
  "test_cmd_timeout t =
     ustr ''bash -c '' @ [39] @ ustr ''timeout '' @ py_str_int t
     @ ustr '' make test >/dev/null 2>&1'' @ [39]"

definition compile_timeout_message :: "int \<Rightarrow> pyval" where
  "compile_timeout_message t =
     PStr (ustr ''Compilation exceeded timeout limit of '' @ py_str_int t @ ustr '' seconds'')"

definition test_timeout_message :: "int \<Rightarrow> pyval" where
  "test_timeout_message t =
     PStr (ustr ''Test execution exceeded timeout limit of '' @ py_str_int t @ ustr '' seconds'')"

subsection \<open>\<open>run_microservice\<close>\<close>

text \<open>The messages written to the standard output under \<open>show_logs\<close> and
  \<open>show_progress\<close> are not part of the model: writing them is taken to succeed, and
  nothing else depends on \<open>show_logs\<close>, which is therefore not a parameter here.\<close>

text \<open>The handler of the outermost \<open>except Exception\<close>.\<close>

definition outer_error :: "env \<Rightarrow> real \<Rightarrow> pystr \<Rightarrow> trace \<Rightarrow> pydict \<times> trace" where
  "outer_error e start_time msg h =
     (let (t, h1) = now e h in
      (dict_of [(''status'', pstr ''ERROR''), (''message'', PStr msg),
                (''execution_time'', PFloat (t - start_time))], h1))"

text \<open>Step 4, the handler of \<open>except Exception as compile_error\<close>.\<close>

definition compile_error :: "env \<Rightarrow> real \<Rightarrow> real \<Rightarrow> pystr \<Rightarrow> trace \<Rightarrow> pydict \<times> trace" where
  "compile_error e start_time compile_start_time msg h =
     (let (t1, h1) = now e h; (t2, h2) = now e h1 in
      (dict_of [(''status'', pstr ''COMPILE_ERROR''),
                (''message'', PStr (ustr ''Compilation error: '' @ msg)),
                (''execution_time'', PFloat (t1 - start_time)),
                (''compile_execution_time'', PFloat (t2 - compile_start_time))], h2))"

definition compile_timeout_result :: "env \<Rightarrow> int \<Rightarrow> real \<Rightarrow> real \<Rightarrow> trace \<Rightarrow> pydict \<times> trace" where
  "compile_timeout_result e ctv start_time compile_execution_time h =
     (let (t, h1) = now e h in
      (dict_of [(''status'', pstr ''COMPILE_TIMEOUT''),
                (''message'', compile_timeout_message ctv),
                (''execution_time'', PFloat (t - start_time)),
                (''compile_execution_time'', PFloat compile_execution_time)], h1))"

definition compile_failed_result :: "env \<Rightarrow> real \<Rightarrow> real \<Rightarrow> byte list \<Rightarrow> trace \<Rightarrow> pydict \<times> trace" where
  "compile_failed_result e start_time compile_execution_time out h =
     (let (t, h1) = now e h in
      (dict_of [(''status'', pstr ''COMPILE_ERROR''),
                (''message'', pstr ''Compilation failed''),
                (''compile_output'', PStr (decode_utf8 Ignore out)),
                (''execution_time'', PFloat (t - start_time)),
                (''compile_execution_time'', PFloat compile_execution_time)], h1))"

text \<open>Step 4 for a compiled language: \<open>Inl\<close> is the dictionary the function returns
  from inside the step, \<open>Inr\<close> the \<open>compile_start_time\<close> it goes on with.\<close>

definition compile_single :: "env \<Rightarrow> int \<Rightarrow> real \<Rightarrow> trace \<Rightarrow> (pydict + real) \<times> trace" where
  "compile_single e ctv start_time h =
     (let (compile_start_time, h1) = now e h in
      case exec_run e (compile_cmd ctv) h1 of
        (Raises msg, h2) \<Rightarrow>
          (let (d, h3) = compile_error e start_time compile_start_time msg h2 in (Inl d, h3))
      | (Returns compile_result, h2) \<Rightarrow>
          (let (t, h3) = now e h2; compile_execution_time = t - compile_start_time in
           if compile_execution_time > real_of_int ctv then
             (case void_call e (Stop 1) h3 of
                (Raises msg, h4) \<Rightarrow>
                  (let (d, h5) = compile_error e start_time compile_start_time msg h4
                   in (Inl d, h5))
              | (Returns _, h4) \<Rightarrow>
                  (let (d, h5) = compile_timeout_result e ctv start_time compile_execution_time h4
                   in (Inl d, h5)))
           else if exit_code compile_result \<noteq> 0 then
             (if exit_code compile_result = 124 then
                (let (d, h4) = compile_timeout_result e ctv start_time compile_execution_time h3
                 in (Inl d, h4))
              else
                (let (d, h4) = compile_failed_result e start_time compile_execution_time
                                 (exec_output compile_result) h3
                 in (Inl d, h4)))
           else (Inr compile_start_time, h3)))"

text \<open>Step 5, the handler of \<open>except Exception as timeout_error\<close>.\<close>

definition timeout_error :: "env \<Rightarrow> real \<Rightarrow> real \<Rightarrow> real \<Rightarrow> pystr \<Rightarrow> trace \<Rightarrow> pydict \<times> trace" where
  "timeout_error e start_time compile_start_time test_start_time msg h =
     (let (t1, h1) = now e h; (t2, h2) = now e h1; (t3, h3) = now e h2 in
      (dict_of [(''status'', pstr ''TIMEOUT_ERROR''),
                (''message'', PStr (ustr ''Timeout handling error: '' @ msg)),
                (''execution_time'', PFloat (t1 - start_time)),
                (''test_execution_time'', PFloat (t2 - test_start_time)),
                (''compile_execution_time'', PFloat (t3 - compile_start_time))], h3))"

definition timeout_result :: "env \<Rightarrow> int \<Rightarrow> real \<Rightarrow> real \<Rightarrow> real \<Rightarrow> trace \<Rightarrow> pydict \<times> trace" where
  "timeout_result e etv start_time compile_start_time test_execution_time h =
     (let (t1, h1) = now e h; (t2, h2) = now e h1 in
      (dict_of [(''status'', pstr ''TIMEOUT''),
                (''message'', test_timeout_message etv),
                (''execution_time'', PFloat (t1 - start_time)),
                (''test_execution_time'', PFloat test_execution_time),
                (''compile_execution_time'', PFloat (t2 - compile_start_time))], h2))"

text \<open>Step 6, the handler of its \<open>except Exception\<close>.\<close>

definition unreadable_result :: "env \<Rightarrow> real \<Rightarrow> int \<Rightarrow> pystr \<Rightarrow> trace \<Rightarrow> pydict \<times> trace" where
  "unreadable_result e start_time ec msg h =
     (let (t, h1) = now e h in
      (dict_of [(''status'', pstr ''ERROR''),
                (''message'', PStr (ustr ''Unable to read result: '' @ msg)),
                (''exit_code'', PInt ec),
                (''execution_time'', PFloat (t - start_time))], h1))"

text \<open>Step 6. A \<open>result.json\<close> that is not a JSON object makes the first item
  assignment raise \<open>TypeError\<close>, which the same handler catches.\<close>

definition collect_single ::
  "env \<Rightarrow> real \<Rightarrow> real \<Rightarrow> real \<Rightarrow> int \<Rightarrow> trace \<Rightarrow> pydict \<times> trace" where
  "collect_single e start_time compile_start_time test_start_time ec h =
     (case get_result e h of
        (Raises msg, h1) \<Rightarrow> unreadable_result e start_time ec msg h1
      | (Returns result_json, h1) \<Rightarrow>
          (let (t1, h2) = now e h1; (t2, h3) = now e h2; (t3, h4) = now e h3;
               elapsed = t1 - start_time;
               test_elapsed = t2 - test_start_time;
               compile_elapsed = t3 - compile_start_time
           in case result_json of
                PDict d \<Rightarrow>
                  (setitem (setitem (setitem d
                     ''total_execution_time'' (PFloat elapsed))
                     ''test_execution_time'' (PFloat test_elapsed))
                     ''compile_execution_time'' (PFloat compile_elapsed), h4)
              | _ \<Rightarrow> unreadable_result e start_time ec (item_assignment_error result_json) h4))"

text \<open>Step 5.\<close>

definition execute_single ::
  "judge \<Rightarrow> env \<Rightarrow> int \<Rightarrow> real \<Rightarrow> real \<Rightarrow> trace \<Rightarrow> pydict \<times> trace" where
  "execute_single J e etv start_time compile_start_time h =
     (let (test_start_time, h1) = now e h in
      if continue_on_timeout J then
        (case exec_run e test_cmd_plain h1 of
           (Raises msg, h2) \<Rightarrow> outer_error e start_time msg h2
         | (Returns exec_result, h2) \<Rightarrow>
             collect_single e start_time compile_start_time test_start_time
               (exit_code exec_result) h2)
      else
        (case exec_run e (test_cmd_timeout etv) h1 of
           (Raises msg, h2) \<Rightarrow>
             timeout_error e start_time compile_start_time test_start_time msg h2
         | (Returns exec_result, h2) \<Rightarrow>
             (let (t, h3) = now e h2; test_execution_time = t - test_start_time in
              if test_execution_time > real_of_int etv then
                (case void_call e (Stop 1) h3 of
                   (Raises msg, h4) \<Rightarrow>
                     timeout_error e start_time compile_start_time test_start_time msg h4
                 | (Returns _, h4) \<Rightarrow>
                     timeout_result e etv start_time compile_start_time test_execution_time h4)
              else if exit_code exec_result = 124 then
                timeout_result e etv start_time compile_start_time test_execution_time h3
              else
                collect_single e start_time compile_start_time test_start_time
                  (exit_code exec_result) h3)))"

text \<open>Step 4 with its two branches: a compiled language is compiled, for Python only
  \<open>compile_start_time\<close> is taken.\<close>

definition compile_step :: "env \<Rightarrow> pystr \<Rightarrow> int \<Rightarrow> real \<Rightarrow> trace \<Rightarrow> (pydict + real) \<times> trace" where
  "compile_step e language ctv start_time h =
     (if \<not> is_python language then compile_single e ctv start_time h
      else (let (compile_start_time, h1) = now e h in (Inr compile_start_time, h1)))"

text \<open>Steps 2 to 6 once the container exists and has been started.\<close>

definition staged_single ::
  "judge \<Rightarrow> env \<Rightarrow> pystr \<Rightarrow> pystr \<Rightarrow> pyval \<Rightarrow> int \<Rightarrow> int \<Rightarrow> real \<Rightarrow> trace \<Rightarrow> pydict \<times> trace" where
  "staged_single J e language user_code config ctv etv start_time h =
     (let (tar_data, h0) = create_file_tar e user_code config (user_filename language) h in
      case void_call e (PutArchive (ustr ''/app'') tar_data) h0 of
        (Raises msg, h1) \<Rightarrow> outer_error e start_time msg h1
      | (Returns _, h1) \<Rightarrow>
          (case compile_step e language ctv start_time h1 of
             (Inl d, h2) \<Rightarrow> (d, h2)
           | (Inr compile_start_time, h2) \<Rightarrow>
               execute_single J e etv start_time compile_start_time h2))"

text \<open>The \<open>try\<close> block with its \<open>except Exception\<close>: the dictionary returned, whether
  \<open>container\<close> was assigned, and the calls made.\<close>

definition run_body ::
  "judge \<Rightarrow> env \<Rightarrow> pystr \<Rightarrow> pystr \<Rightarrow> pystr \<Rightarrow> pyval \<Rightarrow> int \<Rightarrow> int \<Rightarrow> pydict \<times> bool \<times> trace" where
  "run_body J e image_name language user_code config ctv etv =
     (let (start_time, h0) = now e [] in
      case void_call e (create_call J image_name) h0 of
        (Raises msg, h1) \<Rightarrow>
          (let (d, h2) = outer_error e start_time msg h1 in (d, False, h2))
      | (Returns _, h1) \<Rightarrow>
          (case void_call e Start h1 of
             (Raises msg, h2) \<Rightarrow>
               (let (d, h3) = outer_error e start_time msg h2 in (d, True, h3))
           | (Returns _, h2) \<Rightarrow>
               (let (d, h3) = staged_single J e language user_code config ctv etv start_time h2
                in (d, True, h3))))"

text \<open>
  The \<open>finally\<close> block: \<open>stop\<close> and \<open>remove\<close> inside one \<open>try\<close> whose handler swallows
  the exception. A \<open>finally\<close> block that raised would replace the value being returned
  by its exception; \<open>try_finally\<close> keeps that possibility.
\<close>

definition cleanup :: "env \<Rightarrow> bool \<Rightarrow> trace \<Rightarrow> unit outcome \<times> trace" where
  "cleanup e container h =
     (if container then
        (case void_call e (Stop 1) h of
           (Raises msg, h1) \<Rightarrow> (Returns (), h1)
         | (Returns _, h1) \<Rightarrow>
             (case void_call e Remove h1 of
                (Raises msg, h2) \<Rightarrow> (Returns (), h2)
              | (Returns _, h2) \<Rightarrow> (Returns (), h2)))
      else (Returns (), h))"

definition try_finally ::
  "'a \<times> trace \<Rightarrow> (trace \<Rightarrow> unit outcome \<times> trace) \<Rightarrow> (pyexn + 'a) \<times> trace" where
  "try_finally r fin =
     (case fin (snd r) of
        (Raises msg, h) \<Rightarrow> (Inl (DockerError msg), h)
      | (Returns _, h) \<Rightarrow> (Inr (fst r), h))"

definition run_microservice ::
  "judge \<Rightarrow> env \<Rightarrow> pystr \<Rightarrow> pystr \<Rightarrow> pyval \<Rightarrow> int option \<Rightarrow> int option
     \<Rightarrow> (pyexn + pydict) \<times> trace" where
  "run_microservice J e language user_code config compile_timeout execution_timeout =
     (case DOCKER_IMAGES J language of
        None \<Rightarrow> (Inl (ValueError (ustr ''Unsupported language: '' @ language)), [])
      | Some image_name \<Rightarrow>
          (let (d, container, h) =
                 run_body J e image_name language user_code config
                   (compile_timeout_val J compile_timeout)
                   (execution_timeout_val J execution_timeout)
           in try_finally (d, h) (cleanup e container)))"


subsection \<open>\<open>optimized_batch_test\<close>\<close>

text \<open>\<open>[dict(error_result, config_index=i) for i in range(len(configs))]\<close>.\<close>

definition fan_out :: "pydict \<Rightarrow> nat \<Rightarrow> pydict list" where
  "fan_out error_result n =
     map (\<lambda>i. setitem error_result ''config_index'' (PInt (int i))) [0..<n]"

text \<open>A comprehension whose element is a dictionary display reading the clock: the
  clock is read once for every element.\<close>

fun timed_fan_out :: "env \<Rightarrow> (real \<Rightarrow> nat \<Rightarrow> pydict) \<Rightarrow> nat list \<Rightarrow> trace \<Rightarrow> pydict list \<times> trace" where
  "timed_fan_out e f [] h = ([], h)"
| "timed_fan_out e f (i # is) h =
     (let (t, h1) = now e h; (rs, h2) = timed_fan_out e f is h1 in (f t i # rs, h2))"

definition batch_compile_timeout_row :: "int \<Rightarrow> real \<Rightarrow> real \<Rightarrow> real \<Rightarrow> nat \<Rightarrow> pydict" where
  "batch_compile_timeout_row ctv start_time compile_execution_time t i =
     dict_of [(''status'', pstr ''COMPILE_TIMEOUT''),
              (''message'', compile_timeout_message ctv),
              (''execution_time'', PFloat (t - start_time)),
              (''compile_execution_time'', PFloat compile_execution_time),
              (''config_index'', PInt (int i))]"

definition batch_outer_error_row :: "pystr \<Rightarrow> real \<Rightarrow> real \<Rightarrow> nat \<Rightarrow> pydict" where
  "batch_outer_error_row msg start_time t i =
     dict_of [(''status'', pstr ''ERROR''), (''message'', PStr msg),
              (''execution_time'', PFloat (t - start_time)),
              (''config_index'', PInt (int i))]"

definition batch_outer_error ::
  "env \<Rightarrow> real \<Rightarrow> nat \<Rightarrow> pystr \<Rightarrow> trace \<Rightarrow> pydict list \<times> trace" where
  "batch_outer_error e start_time n msg h =
     timed_fan_out e (batch_outer_error_row msg start_time) [0..<n] h"

text \<open>Step 3 for a compiled language: \<open>Inl\<close> is the list the function returns from
  inside the step, \<open>Inr\<close> the \<open>compile_execution_time\<close> it goes on with.\<close>

definition compile_batch ::
  "env \<Rightarrow> int \<Rightarrow> real \<Rightarrow> nat \<Rightarrow> trace \<Rightarrow> (pydict list + real) \<times> trace" where
  "compile_batch e ctv start_time n h =
     (let (compile_start_time, h1) = now e h in
      case exec_run e (compile_cmd ctv) h1 of
        (Raises msg, h2) \<Rightarrow>
          (let (error_result, h3) = compile_error e start_time compile_start_time msg h2
           in (Inl (fan_out error_result n), h3))
      | (Returns compile_result, h2) \<Rightarrow>
          (let (t, h3) = now e h2; compile_execution_time = t - compile_start_time in
           if compile_execution_time > real_of_int ctv then
             (let (rs, h4) = timed_fan_out e
                    (batch_compile_timeout_row ctv start_time compile_execution_time) [0..<n] h3
              in (Inl rs, h4))
           else if exit_code compile_result \<noteq> 0 then
             (let (error_result, h4) =
                    (if exit_code compile_result = 124 then
                       compile_timeout_result e ctv start_time compile_execution_time h3
                     else
                       compile_failed_result e start_time compile_execution_time
                         (exec_output compile_result) h3)
              in (Inl (fan_out error_result n), h4))
           else (Inr compile_execution_time, h3)))"

text \<open>The handlers inside the loop. Each appends one dictionary to \<open>results\<close>.\<close>

definition test_error ::
  "env \<Rightarrow> real \<Rightarrow> pyval \<Rightarrow> real \<Rightarrow> nat \<Rightarrow> pystr \<Rightarrow> pydict list \<Rightarrow> trace
     \<Rightarrow> pydict list \<times> trace" where
  "test_error e start_time compile_execution_time test_start_time i msg results h =
     (let (t1, h1) = now e h; (t2, h2) = now e h1 in
      (results @
         [dict_of [(''status'', pstr ''ERROR''),
                   (''message'', PStr (ustr ''Test execution error: '' @ msg)),
                   (''execution_time'', PFloat (t1 - start_time)),
                   (''test_execution_time'', PFloat (t2 - test_start_time)),
                   (''compile_execution_time'', compile_execution_time),
                   (''config_index'', PInt (int i))]], h2))"

definition test_timeout ::
  "env \<Rightarrow> int \<Rightarrow> real \<Rightarrow> pyval \<Rightarrow> real \<Rightarrow> nat \<Rightarrow> pydict list \<Rightarrow> trace
     \<Rightarrow> pydict list \<times> trace" where
  "test_timeout e etv start_time compile_execution_time test_execution_time i results h =
     (let (t, h1) = now e h in
      (results @
         [dict_of [(''status'', pstr ''TIMEOUT''),
                   (''message'', test_timeout_message etv),
                   (''execution_time'', PFloat (t - start_time)),
                   (''test_execution_time'', PFloat test_execution_time),
                   (''compile_execution_time'', compile_execution_time),
                   (''config_index'', PInt (int i))]], h1))"

definition test_unreadable ::
  "env \<Rightarrow> real \<Rightarrow> pyval \<Rightarrow> real \<Rightarrow> nat \<Rightarrow> int \<Rightarrow> pystr \<Rightarrow> pydict list \<Rightarrow> trace
     \<Rightarrow> pydict list \<times> trace" where
  "test_unreadable e start_time compile_execution_time test_start_time i ec msg results h =
     (let (t1, h1) = now e h; (t2, h2) = now e h1 in
      (results @
         [dict_of [(''status'', pstr ''ERROR''),
                   (''message'', PStr (ustr ''Unable to read result: '' @ msg)),
                   (''exit_code'', PInt ec),
                   (''execution_time'', PFloat (t1 - start_time)),
                   (''test_execution_time'', PFloat (t2 - test_start_time)),
                   (''compile_execution_time'', compile_execution_time),
                   (''config_index'', PInt (int i))]], h2))"

text \<open>"Get test results" inside the loop.\<close>

definition collect_batch ::
  "env \<Rightarrow> real \<Rightarrow> pyval \<Rightarrow> real \<Rightarrow> nat \<Rightarrow> int \<Rightarrow> pydict list \<Rightarrow> trace
     \<Rightarrow> pydict list \<times> trace" where
  "collect_batch e start_time compile_execution_time test_start_time i ec results h =
     (case get_result e h of
        (Raises msg, h1) \<Rightarrow>
          test_unreadable e start_time compile_execution_time test_start_time i ec msg results h1
      | (Returns result_json, h1) \<Rightarrow>
          (let (t1, h2) = now e h1; (t2, h3) = now e h2;
               test_elapsed = t1 - test_start_time;
               total_elapsed = t2 - start_time
           in case result_json of
                PDict d \<Rightarrow>
                  (results @
                     [setitem (setitem (setitem (setitem d
                        ''total_execution_time'' (PFloat total_elapsed))
                        ''test_execution_time'' (PFloat test_elapsed))
                        ''compile_execution_time'' compile_execution_time)
                        ''config_index'' (PInt (int i))], h3)
              | _ \<Rightarrow>
                  test_unreadable e start_time compile_execution_time test_start_time i ec
                    (item_assignment_error result_json) results h3))"

text \<open>The body of the loop over \<open>enumerate(configs)\<close>, from \<open>results\<close> to \<open>results\<close>.\<close>

definition one_test ::
  "judge \<Rightarrow> env \<Rightarrow> int \<Rightarrow> real \<Rightarrow> pyval \<Rightarrow> nat \<Rightarrow> pyval \<Rightarrow> pydict list \<Rightarrow> trace
     \<Rightarrow> pydict list \<times> trace" where
  "one_test J e etv start_time compile_execution_time i config results h =
     (let (test_start_time, h0) = now e h;
          (config_tar_data, h1) = create_config_tar e config h0 in
      case void_call e (PutArchive (ustr ''/app'') config_tar_data) h1 of
        (Raises msg, h2) \<Rightarrow>
          test_error e start_time compile_execution_time test_start_time i msg results h2
      | (Returns _, h2) \<Rightarrow>
          if continue_on_timeout J then
            (case exec_run e test_cmd_plain h2 of
               (Raises msg, h3) \<Rightarrow>
                 test_error e start_time compile_execution_time test_start_time i msg results h3
             | (Returns exec_result, h3) \<Rightarrow>
                 collect_batch e start_time compile_execution_time test_start_time i
                   (exit_code exec_result) results h3)
          else
            (case exec_run e (test_cmd_timeout etv) h2 of
               (Raises msg, h3) \<Rightarrow>
                 test_error e start_time compile_execution_time test_start_time i msg results h3
             | (Returns exec_result, h3) \<Rightarrow>
                 (let (t, h4) = now e h3; test_execution_time = t - test_start_time in
                  if test_execution_time > real_of_int etv then
                    test_timeout e etv start_time compile_execution_time test_execution_time i
                      results h4
                  else if exit_code exec_result = 124 then
                    test_timeout e etv start_time compile_execution_time test_execution_time i
                      results h4
                  else
                    collect_batch e start_time compile_execution_time test_start_time i
                      (exit_code exec_result) results h4)))"

fun test_loop ::
  "judge \<Rightarrow> env \<Rightarrow> int \<Rightarrow> real \<Rightarrow> pyval \<Rightarrow> nat \<Rightarrow> pyval list \<Rightarrow> pydict list \<Rightarrow> trace
     \<Rightarrow> pydict list \<times> trace" where
  "test_loop J e etv start_time cet i [] results h = (results, h)"
| "test_loop J e etv start_time cet i (config # rest) results h =
     (let (results', h') = one_test J e etv start_time cet i config results h
      in test_loop J e etv start_time cet (Suc i) rest results' h')"

text \<open>Step 3 with its two branches: for Python \<open>compile_start_time\<close> is taken and
  \<open>compile_execution_time\<close> is the integer 0.\<close>

definition compile_step_batch ::
  "env \<Rightarrow> pystr \<Rightarrow> int \<Rightarrow> real \<Rightarrow> nat \<Rightarrow> trace \<Rightarrow> (pydict list + pyval) \<times> trace" where
  "compile_step_batch e language ctv start_time n h =
     (if \<not> is_python language then
        (case compile_batch e ctv start_time n h of
           (Inl rs, h1) \<Rightarrow> (Inl rs, h1)
         | (Inr compile_execution_time, h1) \<Rightarrow> (Inr (PFloat compile_execution_time), h1))
      else (let (compile_start_time, h1) = now e h in (Inr (PInt 0), h1)))"

text \<open>Steps 2 to 4 once the container exists and has been started. With
  \<open>show_progress\<close> the clock is read once more after the loop, for the closing message.\<close>

definition staged_batch ::
  "judge \<Rightarrow> env \<Rightarrow> pystr \<Rightarrow> pystr \<Rightarrow> pyval list \<Rightarrow> bool \<Rightarrow> int \<Rightarrow> int \<Rightarrow> real
     \<Rightarrow> trace \<Rightarrow> pydict list \<times> trace" where
  "staged_batch J e language user_code configs show_progress ctv etv start_time h =
     (let (user_tar_data, h0) = create_user_code_tar e user_code (user_filename language) h in
      case void_call e (PutArchive (ustr ''/app'') user_tar_data) h0 of
        (Raises msg, h1) \<Rightarrow> batch_outer_error e start_time (length configs) msg h1
      | (Returns _, h1) \<Rightarrow>
          (case compile_step_batch e language ctv start_time (length configs) h1 of
             (Inl rs, h2) \<Rightarrow> (rs, h2)
           | (Inr compile_execution_time, h2) \<Rightarrow>
               (let (results, h3) =
                      test_loop J e etv start_time compile_execution_time 0 configs [] h2
                in if show_progress then (let (t, h4) = now e h3 in (results, h4))
                   else (results, h3))))"

definition batch_body ::
  "judge \<Rightarrow> env \<Rightarrow> pystr \<Rightarrow> pystr \<Rightarrow> pystr \<Rightarrow> pyval list \<Rightarrow> bool \<Rightarrow> int \<Rightarrow> int
     \<Rightarrow> pydict list \<times> bool \<times> trace" where
  "batch_body J e image_name language user_code configs show_progress ctv etv =
     (let (start_time, h0) = now e [] in
      case void_call e (create_call J image_name) h0 of
        (Raises msg, h1) \<Rightarrow>
          (let (rs, h2) = batch_outer_error e start_time (length configs) msg h1
           in (rs, False, h2))
      | (Returns _, h1) \<Rightarrow>
          (case void_call e Start h1 of
             (Raises msg, h2) \<Rightarrow>
               (let (rs, h3) = batch_outer_error e start_time (length configs) msg h2
                in (rs, True, h3))
           | (Returns _, h2) \<Rightarrow>
               (let (rs, h3) = staged_batch J e language user_code configs show_progress
                                 ctv etv start_time h2
                in (rs, True, h3))))"

definition optimized_batch_test ::
  "judge \<Rightarrow> env \<Rightarrow> pystr \<Rightarrow> pystr \<Rightarrow> pyval list \<Rightarrow> bool \<Rightarrow> int option \<Rightarrow> int option
     \<Rightarrow> (pyexn + pydict list) \<times> trace" where
  "optimized_batch_test J e language user_code configs show_progress compile_timeout
     execution_timeout =
     (case DOCKER_IMAGES J language of
        None \<Rightarrow> (Inl (ValueError (ustr ''Unsupported language: '' @ language)), [])
      | Some image_name \<Rightarrow>
          if configs = [] then (Inr [], [])
          else
            (let (rs, container, h) =
                   batch_body J e image_name language user_code configs show_progress
                     (compile_timeout_val J compile_timeout)
                     (execution_timeout_val J execution_timeout)
             in try_finally (rs, h) (cleanup e container)))"


section \<open>The submit route\<close>

text \<open>
  \<open>routes/judge.py\<close> turns a request into the engine's arguments and the engine's
  dictionary into a response. The request and response classes are declared in
  \<open>judge_micro.api.models.judge\<close>, which is not among the sources: the records below
  hold the fields the route reads and writes, and the validation those classes may do
  on other fields than \<open>status\<close> is not modelled. \<open>show_logs\<close> only prints.
\<close>

datatype judge_status = SUCCESS | COMPILE_ERROR | COMPILE_TIMEOUT | TIMEOUT | RUNTIME_ERROR | ERROR




record execution_metrics =
  m_total_execution_time :: pyval
  m_compile_execution_time :: pyval
  m_test_execution_time :: pyval
  m_time_ms :: pyval
  m_compile_time_ms :: pyval
  m_cpu_utime :: pyval
  m_cpu_stime :: pyval
  m_maxrss_mb :: pyval

record judge_response =
  resp_status :: judge_status
  resp_message :: pyval
  resp_match :: pyval
  resp_stdout :: pyval
  resp_stderr :: pyval
  resp_compile_output :: pyval
  resp_expected :: pyval
  resp_actual :: pyval
  resp_metrics :: "execution_metrics option"
  resp_exit_code :: pyval
  resp_error_details :: pyval







fun exn_str :: "pyexn \<Rightarrow> pystr" where
  "exn_str (ValueError msg) = msg"
| "exn_str (DockerError msg) = msg"

text \<open>The response of the handler \<open>except Exception as e\<close> of \<open>_execute_judge_sync\<close>.\<close>

definition error_response :: "pyexn \<Rightarrow> judge_response" where
  "error_response x =
     \<lparr>resp_status = ERROR,
      resp_message = PStr (ustr ''Error occurred during judge evaluation: '' @ exn_str x),
      resp_match = PNone, resp_stdout = PNone, resp_stderr = PNone,
      resp_compile_output = PNone, resp_expected = PNone, resp_actual = PNone,
      resp_metrics = None, resp_exit_code = PNone,
      resp_error_details = PStr (exn_str x)\<rparr>"





section \<open>Vocabulary of the properties\<close>

fun returns :: "'a outcome \<Rightarrow> bool" where
  "returns (Returns _) = True"
| "returns (Raises _) = False"

text \<open>The calls up to the upload of the archive, the clock being read once for every
  member of the archive, and the environment letting the container be created, started
  and loaded.\<close>

definition staged_history :: "judge \<Rightarrow> pystr \<Rightarrow> archive \<Rightarrow> trace" where
  "staged_history J image_name tar =
     [TimeNow, create_call J image_name, Start] @ replicate (length tar) TimeNow
     @ [PutArchive (ustr ''/app'') tar]"

definition staged_ok :: "env \<Rightarrow> trace \<Rightarrow> bool" where
  "staged_ok e H =
     (returns (void_res e (take 2 H)) \<and> returns (void_res e (take 3 H)) \<and> returns (void_res e H))"

text \<open>The configurations uploaded on their own, in the order of the uploads.\<close>

fun config_uploads :: "trace \<Rightarrow> pyval list" where
  "config_uploads [] = []"
| "config_uploads (PutArchive path [(name, ConfigJson config)] # h) = config # config_uploads h"
| "config_uploads (c # h) = config_uploads h"

fun is_exec :: "call \<Rightarrow> bool" where
  "is_exec (ExecRun _) = True"
| "is_exec _ = False"

fun is_collect :: "call \<Rightarrow> bool" where
  "is_collect (GetResult _) = True"
| "is_collect _ = False"

section \<open>Example runs\<close>

text \<open>
  A service with three images, and a simulated runtime: every call takes one second,
  the exec calls made so far add \<open>secs n\<close> seconds, the container calls picked by
  \<open>failing\<close> raise, the \<open>n\<close>-th exec answers \<open>ex n\<close> and the collection answers \<open>col\<close>.
\<close>

definition example_judge :: "bool \<Rightarrow> judge" where
  "example_judge flag =
     \<lparr>DOCKER_IMAGES = map_of [(ustr ''c'', ustr ''judge-c''), (ustr ''cpp'', ustr ''judge-cpp''),
                               (ustr ''python'', ustr ''judge-python'')],
      continue_on_timeout = flag,
      setting_compile_timeout = Some 30,
      setting_container_timeout = 10,
      cpu_quota = 100000,
      setting_container_mem = ustr ''128m''\<rparr>"

definition sim_env ::
  "(nat \<Rightarrow> real) \<Rightarrow> (call \<Rightarrow> bool) \<Rightarrow> (nat \<Rightarrow> exec_result outcome) \<Rightarrow> pyval outcome \<Rightarrow> env" where
  "sim_env secs failing ex col =
     \<lparr>clock = (\<lambda>h. real (length h) + secs (length (filter is_exec h))),
      void_res = (\<lambda>h. if failing (last h) then Raises (ustr ''API error'') else Returns ()),
      exec_res = (\<lambda>h. ex (length (filter is_exec h))),
      collect_res = (\<lambda>h. col)\<rparr>"

definition exited :: "int \<Rightarrow> byte list \<Rightarrow> exec_result outcome" where
  "exited ec out = Returns \<lparr>exit_code = ec, exec_output = out\<rparr>"

definition success_json :: pyval where
  "success_json =
     PDict (dict_of [(''status'', pstr ''SUCCESS''), (''match'', PBool True),
                     (''compile_execution_time'', PFloat 0)])"

definition example_config :: pyval where
  "example_config =
     PDict (dict_of [(''solve_params'', PList []), (''expected'', PDict []),
                     (''function_type'', pstr ''int'')])"

definition is_stop :: "call \<Rightarrow> bool" where
  "is_stop c = (c = Stop 1)"

text \<open>The runtime in which nothing fails: every exec exits with 0 and the collection
  finds a \<open>SUCCESS\<close> result.\<close>

definition calm_env :: env where
  "calm_env = sim_env (\<lambda>n. 0) (\<lambda>c. False) (\<lambda>n. exited 0 []) (Returns success_json)"

text \<open>A runtime in which every exec takes a hundred seconds more, and one in which the
  build exits with 1 after printing the letter c and a byte that is not UTF-8.\<close>

definition slow_env :: "(call \<Rightarrow> bool) \<Rightarrow> env" where
  "slow_env failing =
     sim_env (\<lambda>n. if n = 0 then 0 else 100) failing (\<lambda>n. exited 0 []) (Returns success_json)"

definition broken_build_env :: env where
  "broken_build_env =
     sim_env (\<lambda>n. 0) (\<lambda>c. False) (\<lambda>n. exited 1 [0x63, 0xFF]) (Returns success_json)"

definition never :: "call \<Rightarrow> bool" where
  "never c = False"

text \<open>A runtime in which the second exec of a run exits with 124, and one in which the
  container cannot be stopped.\<close>

definition flaky_env :: env where
  "flaky_env =
     sim_env (\<lambda>n. 0) (\<lambda>c. False) (\<lambda>n. if n = 2 then exited 124 [] else exited 0 [])
       (Returns success_json)"

definition stop_fails_env :: env where
  "stop_fails_env = sim_env (\<lambda>n. 0) is_stop (\<lambda>n. exited 0 []) (Returns success_json)"



section \<open>Properties\<close>


subsection \<open>Strings and dictionaries\<close>

lemma ustr_eq_iff [simp]: "ustr a = ustr b \<longleftrightarrow> a = b"
  by (auto simp: ustr_def inj_map_eq_map inj_on_def)

lemma pstr_eq_iff [simp]: "pstr a = pstr b \<longleftrightarrow> a = b"
  by (simp add: pstr_def)

lemma map_of_dict_of: "map_of (dict_of kvs) (ustr k) = map_of kvs k"
  by (induction kvs) (auto simp: dict_of_def)

lemma getitem_dict_of [simp]: "getitem (dict_of kvs) k = map_of kvs k"
  by (simp add: getitem_def map_of_dict_of)

lemma getitem_setitem [simp]:
  "getitem (setitem d k v) k' = (if k' = k then Some v else getitem d k')"
  by (simp add: getitem_def setitem_def update_conv')

lemma prefix_ustr [simp]: "prefix (ustr a) (ustr b) \<longleftrightarrow> prefix a b"
proof
  assume "prefix (ustr a) (ustr b)"
  then obtain zs where z: "ustr b = ustr a @ zs" by (auto simp: prefix_def)
  have "ustr (take (length a) b) = take (length a) (ustr b)"
    by (simp add: ustr_def take_map)
  also have "\<dots> = ustr a" using z by (simp add: ustr_def)
  finally have "take (length a) b = a" by simp
  then show "prefix a b" by (metis take_is_prefix)
next
  assume "prefix a b" then show "prefix (ustr a) (ustr b)"
    by (simp add: ustr_def map_mono_prefix)
qed

lemma is_python_ustr [simp]: "is_python (ustr s) \<longleftrightarrow> prefix ''python'' s"
  by (simp add: is_python_def)

subsection \<open>The calls each step makes\<close>

lemmas call_defs = now_def void_call_def exec_run_def get_result_def
  create_file_tar_def create_user_code_tar_def create_config_tar_def

lemma tar_members [simp]:
  "length (file_tar user_code config filename) = 2"
  "length (user_code_tar user_code filename) = 1"
  "length (config_tar config) = 1"
  by (simp_all add: file_tar_def user_code_tar_def config_tar_def)

lemma replicate_two [simp]: "replicate 2 x = [x, x]"
  by (simp add: numeral_2_eq_2)

lemma prefix_appendD: "prefix (h @ t) k \<Longrightarrow> prefix h k"
  by (metis append_prefixD)


lemma cleanup_returns: "fst (cleanup e c h) = Returns ()"
  by (simp add: cleanup_def call_defs split: outcome.splits)

lemma cleanup_trace:
  "snd (cleanup e c h) =
     h @ (if c then (if returns (void_res e (h @ [Stop 1])) then [Stop 1, Remove] else [Stop 1])
          else [])"
  by (simp add: cleanup_def call_defs split: outcome.splits)

lemma try_finally_cleanup:
  "try_finally (r, h) (cleanup e c) = (Inr r, snd (cleanup e c h))"
  using cleanup_returns [of e c h]
  by (cases "cleanup e c h") (simp add: try_finally_def)

lemma outer_error_trace [simp]: "snd (outer_error e st msg h) = h @ [TimeNow]"
  by (simp add: outer_error_def call_defs)

lemma compile_error_trace [simp]: "snd (compile_error e st cst msg h) = h @ [TimeNow, TimeNow]"
  by (simp add: compile_error_def call_defs)

lemma compile_timeout_result_trace [simp]:
  "snd (compile_timeout_result e ctv st cet h) = h @ [TimeNow]"
  by (simp add: compile_timeout_result_def call_defs)

lemma compile_failed_result_trace [simp]:
  "snd (compile_failed_result e st cet out h) = h @ [TimeNow]"
  by (simp add: compile_failed_result_def call_defs)

lemma timeout_error_trace [simp]:
  "snd (timeout_error e st cst tst msg h) = h @ [TimeNow, TimeNow, TimeNow]"
  by (simp add: timeout_error_def call_defs)

lemma timeout_result_trace [simp]:
  "snd (timeout_result e etv st cst tet h) = h @ [TimeNow, TimeNow]"
  by (simp add: timeout_result_def call_defs)

lemma unreadable_result_trace [simp]:
  "snd (unreadable_result e st ec msg h) = h @ [TimeNow]"
  by (simp add: unreadable_result_def call_defs)



lemma collect_single_prefix: "prefix h (snd (collect_single e st cst tst ec h))"
  by (simp add: collect_single_def call_defs Let_def split: outcome.splits pyval.splits)




lemma run_microservice_supported:
  assumes "DOCKER_IMAGES J language = Some img"
  shows "run_microservice J e language user_code config ct et =
     (Inr (fst (run_body J e img language user_code config
                  (compile_timeout_val J ct) (execution_timeout_val J et))),
      snd (cleanup e
             (fst (snd (run_body J e img language user_code config
                  (compile_timeout_val J ct) (execution_timeout_val J et))))
             (snd (snd (run_body J e img language user_code config
                  (compile_timeout_val J ct) (execution_timeout_val J et))))))"
  using assms by (simp add: run_microservice_def split_def Let_def try_finally_cleanup)

subsection \<open>Evaluating the example runs\<close>

lemmas engine_defs =
  run_microservice_def run_body_def staged_single_def compile_step_def compile_single_def
  execute_single_def collect_single_def outer_error_def compile_error_def
  compile_timeout_result_def compile_failed_result_def timeout_error_def timeout_result_def
  unreadable_result_def cleanup_def try_finally_def call_defs
  compile_timeout_val_def execution_timeout_val_def

lemmas sim_defs = sim_env_def exited_def calm_env_def success_json_def example_judge_def
  slow_env_def broken_build_env_def never_def is_stop_def flaky_env_def stop_fails_env_def

lemma example_images [simp]:
  "DOCKER_IMAGES (example_judge flag) (ustr ''c'') = Some (ustr ''judge-c'')"
  "DOCKER_IMAGES (example_judge flag) (ustr ''cpp'') = Some (ustr ''judge-cpp'')"
  "DOCKER_IMAGES (example_judge flag) (ustr ''python'') = Some (ustr ''judge-python'')"
  "DOCKER_IMAGES (example_judge flag) (ustr ''java'') = None"
  by (simp_all add: example_judge_def)

subsection \<open>What the engine rejects before creating a container\<close>




subsection \<open>The empty batch\<close>

text \<open>
  C10. For a supported language and any \<open>user_code\<close>, \<open>optimized_batch_test\<close> with an
  empty list of configurations returns the empty list and has made no call: no
  container is created, started, stopped or removed, and not even the clock is read.
\<close>

theorem batch_empty_configs:
  "DOCKER_IMAGES J language = Some img \<Longrightarrow>
   optimized_batch_test J e language user_code [] show_progress ct et = (Inr [], [])"
  by (simp add: optimized_batch_test_def)

theorem batch_empty_configs_witness:
  "DOCKER_IMAGES (example_judge False) (ustr ''python'') = Some (ustr ''judge-python'')
   \<and> optimized_batch_test (example_judge False) calm_env (ustr ''python'') [] [] True None None
        = (Inr [], [])"
  using batch_empty_configs
          [of "example_judge False" "ustr ''python''" "ustr ''judge-python''" calm_env "[]" True
              None None]
  by simp

subsection \<open>The timing fields of a collected result\<close>

text \<open>
  C9. The claim is that the timing fields of a collected result are the wall times
  measured around the corresponding steps. In the example run below (language \<open>c\<close>,
  every call taking one second) the compile exec is the eighth call, between the clock
  readings 7 and 9, so the wall time around the compile step is 2; the test exec lies
  between the readings 10 and 12. The returned \<open>compile_execution_time\<close> is 9: it is taken
  from \<open>compile_start_time\<close> to a clock reading made after the collection, so it spans
  the test and the collection as well. The runner's own value (0) is overridden.
\<close>

theorem compile_time_spans_test_and_collect:
  "take 9 (snd (run_microservice (example_judge False) calm_env (ustr ''c'') [] example_config
                  None None))
     = [TimeNow, create_call (example_judge False) (ustr ''judge-c''), Start, TimeNow, TimeNow,
        PutArchive (ustr ''/app'') (file_tar [] example_config (ustr ''user.c'')),
        TimeNow, ExecRun (compile_cmd 30), TimeNow]
   \<and> clock calm_env
        [TimeNow, create_call (example_judge False) (ustr ''judge-c''), Start, TimeNow, TimeNow,
         PutArchive (ustr ''/app'') (file_tar [] example_config (ustr ''user.c'')),
         TimeNow, ExecRun (compile_cmd 30), TimeNow]
       - clock calm_env
        [TimeNow, create_call (example_judge False) (ustr ''judge-c''), Start, TimeNow, TimeNow,
         PutArchive (ustr ''/app'') (file_tar [] example_config (ustr ''user.c'')),
         TimeNow] = 2
   \<and> getitem (projr (fst (run_microservice (example_judge False) calm_env (ustr ''c'') []
                            example_config None None))) ''compile_execution_time''
       = Some (PFloat 9)
   \<and> getitem (projr (fst (run_microservice (example_judge False) calm_env (ustr ''c'') []
                            example_config None None))) ''test_execution_time''
       = Some (PFloat 5)
   \<and> getitem (projr (fst (run_microservice (example_judge False) calm_env (ustr ''c'') []
                            example_config None None))) ''total_execution_time''
       = Some (PFloat 13)"
  by (simp add: engine_defs sim_defs Let_def user_filename_def)


subsection \<open>Reaching and leaving the steps\<close>

lemma returns_unit [simp]: "returns (x :: unit outcome) \<longleftrightarrow> x = Returns ()"
  by (cases x) auto

lemma run_body_staged:
  assumes "staged_ok e (staged_history J img (file_tar user_code config (user_filename language)))"
  shows "run_body J e img language user_code config ctv etv =
     (case compile_step e language ctv (clock e [TimeNow])
             (staged_history J img (file_tar user_code config (user_filename language))) of
        (Inl d, h2) \<Rightarrow> (d, True, h2)
      | (Inr cst, h2) \<Rightarrow>
          (fst (execute_single J e etv (clock e [TimeNow]) cst h2), True,
           snd (execute_single J e etv (clock e [TimeNow]) cst h2)))"
  using assms
  by (simp add: staged_ok_def staged_history_def run_body_def staged_single_def call_defs
        Let_def split_def split: prod.splits sum.splits)

lemma cleanup_prefix: "prefix h (snd (cleanup e c h))"
  by (simp add: cleanup_trace)

lemma execute_single_start:
  "prefix (h @ [TimeNow, ExecRun (if continue_on_timeout J then test_cmd_plain
                                  else test_cmd_timeout etv)])
     (snd (execute_single J e etv st cst h))"
proof (cases "continue_on_timeout J")
  case True
  show ?thesis
  proof (cases "exec_res e (h @ [TimeNow, ExecRun test_cmd_plain])")
    case (Raises msg)
    then show ?thesis using True by (simp add: execute_single_def call_defs Let_def)
  next
    case (Returns r)
    show ?thesis
      using True Returns
        collect_single_prefix [of "h @ [TimeNow, ExecRun test_cmd_plain]" e st cst
                                  "clock e (h @ [TimeNow])" "exit_code r"]
      by (simp add: execute_single_def call_defs Let_def)
  qed
next
  case False
  let ?hx = "h @ [TimeNow, ExecRun (test_cmd_timeout etv)]"
  show ?thesis
  proof (cases "exec_res e ?hx")
    case (Raises msg)
    then show ?thesis using False by (simp add: execute_single_def call_defs Let_def)
  next
    case (Returns r)
    have c: "prefix ?hx (snd (collect_single e st cst (clock e (h @ [TimeNow])) (exit_code r)
                                (?hx @ [TimeNow])))"
      by (rule prefix_appendD [OF collect_single_prefix])
    show ?thesis
      using False Returns c
      by (cases "void_res e (?hx @ [TimeNow, Stop 1])")
         (simp_all add: execute_single_def call_defs Let_def)
  qed
qed


lemma no_timeout_in_plain: "\<not> sublist (ustr ''timeout'') test_cmd_plain"
  by (simp add: test_cmd_plain_def ustr_def sublist_code)

lemma collect_single_dict:
  assumes "collect_res e (h @ [GetResult (ustr ''/app/result.json'')]) = Returns (PDict d0)"
  shows "fst (collect_single e st cst tst ec h) =
           setitem (setitem (setitem d0
             ''total_execution_time''
               (PFloat (clock e (h @ [GetResult (ustr ''/app/result.json''), TimeNow]) - st)))
             ''test_execution_time''
               (PFloat (clock e (h @ [GetResult (ustr ''/app/result.json''), TimeNow, TimeNow]) - tst)))
             ''compile_execution_time''
               (PFloat (clock e (h @ [GetResult (ustr ''/app/result.json''), TimeNow, TimeNow, TimeNow]) - cst))"
  using assms by (simp add: collect_single_def call_defs Let_def)

lemma collect_single_raises:
  assumes "collect_res e (h @ [GetResult (ustr ''/app/result.json'')]) = Raises msg"
  shows "getitem (fst (collect_single e st cst tst ec h)) ''status'' = Some (pstr ''ERROR'')"
    and "getitem (fst (collect_single e st cst tst ec h)) ''exit_code'' = Some (PInt ec)"
  using assms by (simp_all add: collect_single_def call_defs Let_def unreadable_result_def)

lemma collect_single_not_object:
  assumes "collect_res e (h @ [GetResult (ustr ''/app/result.json'')]) = Returns v"
      and "\<forall>d0. v \<noteq> PDict d0"
  shows "getitem (fst (collect_single e st cst tst ec h)) ''status'' = Some (pstr ''ERROR'')"
    and "getitem (fst (collect_single e st cst tst ec h)) ''exit_code'' = Some (PInt ec)"
  using assms
  by (cases v; simp add: collect_single_def call_defs Let_def unreadable_result_def)+

lemma collect_single_start:
  "prefix (h @ [GetResult (ustr ''/app/result.json'')]) (snd (collect_single e st cst tst ec h))"
  by (simp add: collect_single_def call_defs Let_def split: outcome.splits pyval.splits)

lemma compile_single_ends:
  assumes "compile_single e ctv st h = (Inl d, h')"
  shows "getitem d ''status'' = Some (pstr ''COMPILE_TIMEOUT'')
         \<or> getitem d ''status'' = Some (pstr ''COMPILE_ERROR'')"
  using assms
  by (auto simp: compile_single_def call_defs Let_def compile_error_def
        compile_timeout_result_def compile_failed_result_def
        split: outcome.splits if_splits)

lemma compile_step_ends:
  assumes "compile_step e language ctv st h = (Inl d, h')"
  shows "getitem d ''status'' = Some (pstr ''COMPILE_TIMEOUT'')
         \<or> getitem d ''status'' = Some (pstr ''COMPILE_ERROR'')"
  using assms compile_single_ends [of e ctv st h d h']
  by (auto simp: compile_step_def call_defs split: if_splits)


lemma create_call_kind [simp]:
  "\<not> is_exec (create_call J i)" "\<not> is_collect (create_call J i)"
  "create_call J i \<noteq> Stop n" "create_call J i \<noteq> Remove" "\<not> is_stop (create_call J i)"
  by (simp_all add: create_call_def is_stop_def)


subsection \<open>The compile step of a single submission\<close>

text \<open>
  C2 (as amended). For a compiled language, once the container is created, started and
  loaded and the compile exec has returned, \<open>run_microservice\<close> classifies the step by
  the wall time first and the exit code second. Within \<open>compile_timeout_s\<close>: exit code
  0 goes on to the execute step (the test exec is the next container call), 124 gives
  \<open>COMPILE_TIMEOUT\<close>, any other code gives \<open>COMPILE_ERROR\<close> whose \<open>compile_output\<close> is the
  exec output decoded as UTF-8 with the undecodable bytes dropped (\<open>errors='ignore'\<close>).
  Over the limit the engine stops the container and gives \<open>COMPILE_TIMEOUT\<close>, whatever
  the exit code; if that stop raises, the result is \<open>COMPILE_ERROR\<close>.
\<close>

theorem compile_step_classification:
  fixes J e language user_code config ct et img r
  defines "ctv \<equiv> compile_timeout_val J ct"
      and "etv \<equiv> execution_timeout_val J et"
      and "H \<equiv> staged_history J img (file_tar user_code config (user_filename language))"
  defines "Hc \<equiv> H @ [TimeNow, ExecRun (compile_cmd ctv)]"
  defines "wall \<equiv> clock e (Hc @ [TimeNow]) - clock e (H @ [TimeNow])"
      and "res \<equiv> run_microservice J e language user_code config ct et"
  assumes img: "DOCKER_IMAGES J language = Some img"
      and lang: "\<not> is_python language"
      and ok: "staged_ok e H"
      and ex: "exec_res e Hc = Returns r"
  shows
    "\<not> isl (fst res)
     \<and> (wall \<le> real_of_int ctv \<and> exit_code r = 0 \<longrightarrow>
          prefix (Hc @ [TimeNow, TimeNow,
                        ExecRun (if continue_on_timeout J then test_cmd_plain
                                 else test_cmd_timeout etv)]) (snd res))
     \<and> (wall \<le> real_of_int ctv \<and> exit_code r = 124 \<longrightarrow>
          getitem (projr (fst res)) ''status'' = Some (pstr ''COMPILE_TIMEOUT''))
     \<and> (wall > real_of_int ctv \<and> returns (void_res e (Hc @ [TimeNow, Stop 1])) \<longrightarrow>
          getitem (projr (fst res)) ''status'' = Some (pstr ''COMPILE_TIMEOUT''))
     \<and> (wall > real_of_int ctv \<and> \<not> returns (void_res e (Hc @ [TimeNow, Stop 1])) \<longrightarrow>
          getitem (projr (fst res)) ''status'' = Some (pstr ''COMPILE_ERROR''))
     \<and> (wall \<le> real_of_int ctv \<and> exit_code r \<noteq> 0 \<and> exit_code r \<noteq> 124 \<longrightarrow>
          getitem (projr (fst res)) ''status'' = Some (pstr ''COMPILE_ERROR'')
          \<and> getitem (projr (fst res)) ''compile_output''
              = Some (PStr (decode_utf8 Ignore (exec_output r))))"
proof -
  have rb: "res = (Inr (fst (run_body J e img language user_code config ctv etv)),
      snd (cleanup e (fst (snd (run_body J e img language user_code config ctv etv)))
             (snd (snd (run_body J e img language user_code config ctv etv)))))"
    unfolding res_def ctv_def etv_def by (rule run_microservice_supported [OF img])
  have body: "run_body J e img language user_code config ctv etv =
     (case compile_single e ctv (clock e [TimeNow]) H of
        (Inl d, h2) \<Rightarrow> (d, True, h2)
      | (Inr cst, h2) \<Rightarrow>
          (fst (execute_single J e etv (clock e [TimeNow]) cst h2), True,
           snd (execute_single J e etv (clock e [TimeNow]) cst h2)))"
    using run_body_staged [OF ok [unfolded H_def], of ctv etv] lang
    by (simp add: compile_step_def H_def)
  have ex': "exec_res e (H @ [TimeNow, ExecRun (compile_cmd ctv)]) = Returns r"
    using ex by (simp add: Hc_def)
  have c1: "\<not> isl (fst res)" by (simp add: rb)
  have c2: "prefix (Hc @ [TimeNow, TimeNow,
                        ExecRun (if continue_on_timeout J then test_cmd_plain
                                 else test_cmd_timeout etv)]) (snd res)"
    if "wall \<le> real_of_int ctv" "exit_code r = 0"
  proof -
    have cs: "compile_single e ctv (clock e [TimeNow]) H = (Inr (clock e (H @ [TimeNow])), Hc @ [TimeNow])"
      using that ex' by (simp add: compile_single_def call_defs Let_def wall_def Hc_def)
    have "prefix (Hc @ [TimeNow, TimeNow,
                        ExecRun (if continue_on_timeout J then test_cmd_plain
                                 else test_cmd_timeout etv)])
            (snd (execute_single J e etv (clock e [TimeNow]) (clock e (H @ [TimeNow])) (Hc @ [TimeNow])))"
      using execute_single_start [of "Hc @ [TimeNow]" J etv e] by simp
    moreover have "snd res = snd (cleanup e True
        (snd (execute_single J e etv (clock e [TimeNow]) (clock e (H @ [TimeNow])) (Hc @ [TimeNow]))))"
      by (simp add: rb body cs)
    ultimately show ?thesis
      using cleanup_prefix prefix_order.trans by metis
  qed
  have c3: "getitem (projr (fst res)) ''status'' = Some (pstr ''COMPILE_TIMEOUT'')"
    if "wall \<le> real_of_int ctv" "exit_code r = 124"
    using that ex'
    by (simp add: rb body compile_single_def call_defs Let_def wall_def Hc_def
          compile_timeout_result_def)
  have c4: "getitem (projr (fst res)) ''status'' = Some (pstr ''COMPILE_TIMEOUT'')"
    if "wall > real_of_int ctv" "returns (void_res e (Hc @ [TimeNow, Stop 1]))"
    using that ex'
    by (simp add: rb body compile_single_def call_defs Let_def wall_def Hc_def
          compile_timeout_result_def)
  have c5: "getitem (projr (fst res)) ''status'' = Some (pstr ''COMPILE_ERROR'')"
    if "wall > real_of_int ctv" "\<not> returns (void_res e (Hc @ [TimeNow, Stop 1]))"
    using that ex'
    by (cases "void_res e (H @ [TimeNow, ExecRun (compile_cmd ctv), TimeNow, Stop 1])")
       (simp_all add: rb body compile_single_def call_defs Let_def wall_def Hc_def
          compile_error_def)
  have c6: "getitem (projr (fst res)) ''status'' = Some (pstr ''COMPILE_ERROR'')
          \<and> getitem (projr (fst res)) ''compile_output''
              = Some (PStr (decode_utf8 Ignore (exec_output r)))"
    if "wall \<le> real_of_int ctv" "exit_code r \<noteq> 0" "exit_code r \<noteq> 124"
    using that ex'
    by (simp add: rb body compile_single_def call_defs Let_def wall_def Hc_def
          compile_failed_result_def)
  show ?thesis using c1 c2 c3 c4 c5 c6 by blast
qed

theorem compile_step_classification_witness:
  "DOCKER_IMAGES (example_judge False) (ustr ''c'') = Some (ustr ''judge-c'')
   \<and> \<not> is_python (ustr ''c'')
   \<and> staged_ok broken_build_env
        (staged_history (example_judge False) (ustr ''judge-c'')
           (file_tar [] example_config (user_filename (ustr ''c''))))
   \<and> exec_res broken_build_env
        (staged_history (example_judge False) (ustr ''judge-c'')
           (file_tar [] example_config (user_filename (ustr ''c'')))
         @ [TimeNow, ExecRun (compile_cmd (compile_timeout_val (example_judge False) None))])
       = Returns \<lparr>exit_code = 1, exec_output = [0x63, 0xFF]\<rparr>
   \<and> getitem (projr (fst (run_microservice (example_judge False) broken_build_env
                            (ustr ''c'') [] example_config None None))) ''status''
       = Some (pstr ''COMPILE_ERROR'')
   \<and> getitem (projr (fst (run_microservice (example_judge False) broken_build_env
                            (ustr ''c'') [] example_config None None))) ''compile_output''
       = Some (PStr (decode_utf8 Ignore [0x63, 0xFF]))"
proof -
  let ?J = "example_judge False" and ?e = broken_build_env
  let ?H = "staged_history ?J (ustr ''judge-c'')
              (file_tar [] example_config (user_filename (ustr ''c'')))"
  have img: "DOCKER_IMAGES ?J (ustr ''c'') = Some (ustr ''judge-c'')" by simp
  have lang: "\<not> is_python (ustr ''c'')" by simp
  have ok: "staged_ok ?e ?H" by (simp add: staged_ok_def staged_history_def sim_defs)
  have x: "exec_res ?e (?H @ [TimeNow, ExecRun (compile_cmd (compile_timeout_val ?J None))])
             = Returns \<lparr>exit_code = 1, exec_output = [0x63, 0xFF]\<rparr>"
    by (simp add: sim_defs)
  have "getitem (projr (fst (run_microservice ?J ?e (ustr ''c'') [] example_config None None)))
          ''status'' = Some (pstr ''COMPILE_ERROR'')
      \<and> getitem (projr (fst (run_microservice ?J ?e (ustr ''c'') [] example_config None None)))
          ''compile_output'' = Some (PStr (decode_utf8 Ignore [0x63, 0xFF]))"
    using compile_step_classification [OF img lang ok x, of None]
    by (simp add: staged_history_def sim_defs compile_timeout_val_def)
  then show ?thesis using img lang ok x by blast
qed


text \<open>The claim as stated fails: an output of the letter c followed by the byte FF is
  reported as the one letter, where \<open>errors='replace'\<close> gives the letter and U+FFFD; and
  a compilation over the time limit whose container cannot be stopped is reported as
  \<open>COMPILE_ERROR\<close>.\<close>

theorem compile_output_drops_bad_bytes:
  "getitem (projr (fst (run_microservice (example_judge False) broken_build_env
                            (ustr ''c'') [] example_config None None))) ''compile_output''
       = Some (PStr [0x63])
   \<and> decode_utf8 Replace [0x63, 0xFF] = [0x63, 0xFFFD]
   \<and> getitem (projr (fst (run_microservice (example_judge False) (slow_env is_stop)
                            (ustr ''c'') [] example_config None None))) ''status''
       = Some (pstr ''COMPILE_ERROR'')"
  by (simp add: engine_defs sim_defs Let_def user_filename_def decode_utf8_def is_cont_def)

subsection \<open>The execute step of a single submission\<close>

text \<open>
  C1 (as amended). With \<open>continue_on_timeout\<close> off, a run that ends in the compile step
  returns \<open>COMPILE_TIMEOUT\<close> or \<open>COMPILE_ERROR\<close>, never \<open>TIMEOUT\<close>. A run that reaches the
  execute step and whose test exec returns is classified by the wall time first: over
  \<open>execution_timeout_s\<close> the engine stops the container and returns \<open>TIMEOUT\<close>, and
  \<open>TIMEOUT_ERROR\<close> if that stop raises. Within the limit, exit code 124 gives \<open>TIMEOUT\<close>;
  on any other exit code the engine collects \<open>/app/result.json\<close>: a JSON object is
  returned with the three timing keys set, so its \<open>status\<close> is the runner's; a
  collection that raises, or yields something else than an object, gives \<open>ERROR\<close>
  carrying the \<open>exit_code\<close> (the spec's RuntimeError).
\<close>

theorem execute_step_classification:
  fixes J e language user_code config ct et img
  defines "ctv \<equiv> compile_timeout_val J ct"
      and "etv \<equiv> execution_timeout_val J et"
      and "H \<equiv> staged_history J img (file_tar user_code config (user_filename language))"
      and "st \<equiv> clock e [TimeNow]"
      and "res \<equiv> run_microservice J e language user_code config ct et"
  assumes img: "DOCKER_IMAGES J language = Some img"
      and nocot: "\<not> continue_on_timeout J"
      and ok: "staged_ok e H"
  shows
    "(\<forall>d h'. compile_step e language ctv st H = (Inl d, h') \<longrightarrow>
        fst res = Inr d
        \<and> (getitem d ''status'' = Some (pstr ''COMPILE_TIMEOUT'')
           \<or> getitem d ''status'' = Some (pstr ''COMPILE_ERROR'')))
     \<and> (\<forall>cst h r.
          compile_step e language ctv st H = (Inr cst, h)
          \<and> exec_res e (h @ [TimeNow, ExecRun (test_cmd_timeout etv)]) = Returns r \<longrightarrow>
          (let Hx = h @ [TimeNow, ExecRun (test_cmd_timeout etv), TimeNow];
               wall = clock e Hx - clock e (h @ [TimeNow]);
               Hg = Hx @ [GetResult (ustr ''/app/result.json'')];
               d = projr (fst res)
           in \<not> isl (fst res)
              \<and> (wall > real_of_int etv \<and> returns (void_res e (Hx @ [Stop 1])) \<longrightarrow>
                   getitem d ''status'' = Some (pstr ''TIMEOUT''))
              \<and> (wall > real_of_int etv \<and> \<not> returns (void_res e (Hx @ [Stop 1])) \<longrightarrow>
                   getitem d ''status'' = Some (pstr ''TIMEOUT_ERROR''))
              \<and> (wall \<le> real_of_int etv \<and> exit_code r = 124 \<longrightarrow>
                   getitem d ''status'' = Some (pstr ''TIMEOUT''))
              \<and> (wall \<le> real_of_int etv \<and> exit_code r \<noteq> 124 \<longrightarrow>
                   prefix Hg (snd res)
                   \<and> (\<forall>d0. collect_res e Hg = Returns (PDict d0) \<longrightarrow>
                         d = setitem (setitem (setitem d0
                               ''total_execution_time'' (PFloat (clock e (Hg @ [TimeNow]) - st)))
                               ''test_execution_time''
                                 (PFloat (clock e (Hg @ [TimeNow, TimeNow]) - clock e (h @ [TimeNow]))))
                               ''compile_execution_time''
                                 (PFloat (clock e (Hg @ [TimeNow, TimeNow, TimeNow]) - cst))
                         \<and> getitem d ''status'' = getitem d0 ''status'')
                   \<and> (\<forall>msg. collect_res e Hg = Raises msg \<longrightarrow>
                         getitem d ''status'' = Some (pstr ''ERROR'')
                         \<and> getitem d ''exit_code'' = Some (PInt (exit_code r)))
                   \<and> (\<forall>v. collect_res e Hg = Returns v \<and> (\<forall>d0. v \<noteq> PDict d0) \<longrightarrow>
                         getitem d ''status'' = Some (pstr ''ERROR'')
                         \<and> getitem d ''exit_code'' = Some (PInt (exit_code r))))))"
proof (intro conjI allI impI)
  have rb: "res = (Inr (fst (run_body J e img language user_code config ctv etv)),
      snd (cleanup e (fst (snd (run_body J e img language user_code config ctv etv)))
             (snd (snd (run_body J e img language user_code config ctv etv)))))"
    unfolding res_def ctv_def etv_def by (rule run_microservice_supported [OF img])
  note body = run_body_staged [OF ok [unfolded H_def], of ctv etv, folded H_def st_def]
  {
    fix d h' assume c: "compile_step e language ctv st H = (Inl d, h')"
    show "fst res = Inr d" by (simp add: rb body c)
    show "getitem d ''status'' = Some (pstr ''COMPILE_TIMEOUT'')
           \<or> getitem d ''status'' = Some (pstr ''COMPILE_ERROR'')"
      by (rule compile_step_ends [OF c])
  }
  fix cst h r
  assume a: "compile_step e language ctv st H = (Inr cst, h)
          \<and> exec_res e (h @ [TimeNow, ExecRun (test_cmd_timeout etv)]) = Returns r"
  then have c: "compile_step e language ctv st H = (Inr cst, h)"
    and x: "exec_res e (h @ [TimeNow, ExecRun (test_cmd_timeout etv)]) = Returns r" by auto
  define Hx where "Hx = h @ [TimeNow, ExecRun (test_cmd_timeout etv), TimeNow]"
  define wall where "wall = clock e Hx - clock e (h @ [TimeNow])"
  define Hg where "Hg = Hx @ [GetResult (ustr ''/app/result.json'')]"
  define d where "d = projr (fst res)"
  have d: "d = fst (execute_single J e etv st cst h)"
    by (simp add: d_def rb body c)
  have tr: "snd res = snd (cleanup e True (snd (execute_single J e etv st cst h)))"
    by (simp add: rb body c)
  have 0: "\<not> isl (fst res)" by (simp add: rb)
  have 1: "getitem d ''status'' = Some (pstr ''TIMEOUT'')"
    if "wall > real_of_int etv" "returns (void_res e (Hx @ [Stop 1]))"
    using that nocot x
    by (simp add: d execute_single_def call_defs Let_def wall_def Hx_def timeout_result_def)
  have 2: "getitem d ''status'' = Some (pstr ''TIMEOUT_ERROR'')"
    if "wall > real_of_int etv" "\<not> returns (void_res e (Hx @ [Stop 1]))"
    using that nocot x
    by (cases "void_res e (h @ [TimeNow, ExecRun (test_cmd_timeout etv), TimeNow, Stop 1])")
       (simp_all add: d execute_single_def call_defs Let_def wall_def Hx_def timeout_error_def)
  have 3: "getitem d ''status'' = Some (pstr ''TIMEOUT'')"
    if "wall \<le> real_of_int etv" "exit_code r = 124"
    using that nocot x
    by (simp add: d execute_single_def call_defs Let_def wall_def Hx_def timeout_result_def)
  have coll: "execute_single J e etv st cst h =
                collect_single e st cst (clock e (h @ [TimeNow])) (exit_code r) Hx"
    if "wall \<le> real_of_int etv" "exit_code r \<noteq> 124"
    using that nocot x
    by (simp add: execute_single_def call_defs Let_def wall_def Hx_def)
  have 4: "prefix Hg (snd res)"
    if w: "wall \<le> real_of_int etv" "exit_code r \<noteq> 124"
  proof -
    have "prefix Hg (snd (execute_single J e etv st cst h))"
      unfolding coll [OF w] Hg_def by (rule collect_single_start)
    then show ?thesis unfolding tr using cleanup_prefix prefix_order.trans by metis
  qed
  have 5: "d = setitem (setitem (setitem d0
                               ''total_execution_time'' (PFloat (clock e (Hg @ [TimeNow]) - st)))
                               ''test_execution_time''
                                 (PFloat (clock e (Hg @ [TimeNow, TimeNow]) - clock e (h @ [TimeNow]))))
                               ''compile_execution_time''
                                 (PFloat (clock e (Hg @ [TimeNow, TimeNow, TimeNow]) - cst))
           \<and> getitem d ''status'' = getitem d0 ''status''"
    if w: "wall \<le> real_of_int etv" "exit_code r \<noteq> 124"
      and g: "collect_res e Hg = Returns (PDict d0)" for d0
    using collect_single_dict [OF g [unfolded Hg_def], of st cst "clock e (h @ [TimeNow])" "exit_code r"]
    by (simp add: d coll [OF w] Hg_def)
  have 6: "getitem d ''status'' = Some (pstr ''ERROR'')
           \<and> getitem d ''exit_code'' = Some (PInt (exit_code r))"
    if w: "wall \<le> real_of_int etv" "exit_code r \<noteq> 124"
      and g: "collect_res e Hg = Raises msg" for msg
    using collect_single_raises [OF g [unfolded Hg_def], of st cst "clock e (h @ [TimeNow])" "exit_code r"]
    by (simp add: d coll [OF w])
  have 7: "getitem d ''status'' = Some (pstr ''ERROR'')
           \<and> getitem d ''exit_code'' = Some (PInt (exit_code r))"
    if w: "wall \<le> real_of_int etv" "exit_code r \<noteq> 124"
      and g: "collect_res e Hg = Returns v" "\<forall>d0. v \<noteq> PDict d0" for v
    using collect_single_not_object [OF g(1) [unfolded Hg_def] g(2), of st cst "clock e (h @ [TimeNow])" "exit_code r"]
    by (simp add: d coll [OF w])
  show "let Hx = h @ [TimeNow, ExecRun (test_cmd_timeout etv), TimeNow];
               wall = clock e Hx - clock e (h @ [TimeNow]);
               Hg = Hx @ [GetResult (ustr ''/app/result.json'')];
               d = projr (fst res)
           in \<not> isl (fst res)
              \<and> (wall > real_of_int etv \<and> returns (void_res e (Hx @ [Stop 1])) \<longrightarrow>
                   getitem d ''status'' = Some (pstr ''TIMEOUT''))
              \<and> (wall > real_of_int etv \<and> \<not> returns (void_res e (Hx @ [Stop 1])) \<longrightarrow>
                   getitem d ''status'' = Some (pstr ''TIMEOUT_ERROR''))
              \<and> (wall \<le> real_of_int etv \<and> exit_code r = 124 \<longrightarrow>
                   getitem d ''status'' = Some (pstr ''TIMEOUT''))
              \<and> (wall \<le> real_of_int etv \<and> exit_code r \<noteq> 124 \<longrightarrow>
                   prefix Hg (snd res)
                   \<and> (\<forall>d0. collect_res e Hg = Returns (PDict d0) \<longrightarrow>
                         d = setitem (setitem (setitem d0
                               ''total_execution_time'' (PFloat (clock e (Hg @ [TimeNow]) - st)))
                               ''test_execution_time''
                                 (PFloat (clock e (Hg @ [TimeNow, TimeNow]) - clock e (h @ [TimeNow]))))
                               ''compile_execution_time''
                                 (PFloat (clock e (Hg @ [TimeNow, TimeNow, TimeNow]) - cst))
                         \<and> getitem d ''status'' = getitem d0 ''status'')
                   \<and> (\<forall>msg. collect_res e Hg = Raises msg \<longrightarrow>
                         getitem d ''status'' = Some (pstr ''ERROR'')
                         \<and> getitem d ''exit_code'' = Some (PInt (exit_code r)))
                   \<and> (\<forall>v. collect_res e Hg = Returns v \<and> (\<forall>d0. v \<noteq> PDict d0) \<longrightarrow>
                         getitem d ''status'' = Some (pstr ''ERROR'')
                         \<and> getitem d ''exit_code'' = Some (PInt (exit_code r))))"
    unfolding Let_def Hx_def [symmetric] wall_def [symmetric] Hg_def [symmetric] d_def [symmetric]
    using 0 1 2 3 4 5 6 7 by blast
qed

theorem execute_step_classification_witness:
  "DOCKER_IMAGES (example_judge False) (ustr ''python'') = Some (ustr ''judge-python'')
   \<and> \<not> continue_on_timeout (example_judge False)
   \<and> staged_ok (slow_env never)
        (staged_history (example_judge False) (ustr ''judge-python'')
           (file_tar [] example_config (user_filename (ustr ''python''))))
   \<and> getitem (projr (fst (run_microservice (example_judge False) (slow_env never)
                            (ustr ''python'') [] example_config None None))) ''status''
       = Some (pstr ''TIMEOUT'')"
proof -
  let ?J = "example_judge False" and ?e = "slow_env never"
  let ?H = "staged_history ?J (ustr ''judge-python'')
              (file_tar [] example_config (user_filename (ustr ''python'')))"
  have img: "DOCKER_IMAGES ?J (ustr ''python'') = Some (ustr ''judge-python'')" by simp
  have nocot: "\<not> continue_on_timeout ?J" by (simp add: example_judge_def)
  have ok: "staged_ok ?e ?H" by (simp add: staged_ok_def staged_history_def sim_defs)
  have c: "compile_step ?e (ustr ''python'') (compile_timeout_val ?J None) (clock ?e [TimeNow]) ?H
             = (Inr 7, ?H @ [TimeNow])"
    by (simp add: compile_step_def call_defs staged_history_def sim_defs)
  have x: "exec_res ?e ((?H @ [TimeNow]) @ [TimeNow, ExecRun (test_cmd_timeout (execution_timeout_val ?J None))])
             = Returns \<lparr>exit_code = 0, exec_output = []\<rparr>"
    by (simp add: sim_defs)
  have "getitem (projr (fst (run_microservice ?J ?e (ustr ''python'') [] example_config None None)))
          ''status'' = Some (pstr ''TIMEOUT'')"
    using execute_step_classification [OF img nocot ok, of None None, THEN conjunct2,
            THEN spec [where x = "7::real"], THEN spec [where x = "?H @ [TimeNow]"],
            THEN spec [where x = "\<lparr>exit_code = 0, exec_output = []\<rparr>"], THEN mp, OF conjI [OF c x]]
    by (simp add: Let_def staged_history_def sim_defs execution_timeout_val_def)
  then show ?thesis using img nocot ok by blast
qed


text \<open>The claim as stated fails: a test over the time limit whose container cannot be
  stopped is reported as \<open>TIMEOUT_ERROR\<close>, not as a runtime timeout.\<close>

theorem timeout_with_failing_stop:
  "getitem (projr (fst (run_microservice (example_judge False) (slow_env is_stop)
                            (ustr ''python'') [] example_config None None))) ''status''
       = Some (pstr ''TIMEOUT_ERROR'')
   \<and> take 11 (snd (run_microservice (example_judge False) (slow_env is_stop)
                            (ustr ''python'') [] example_config None None))
       = [TimeNow, create_call (example_judge False) (ustr ''judge-python''), Start, TimeNow, TimeNow,
          PutArchive (ustr ''/app'') (file_tar [] example_config (ustr ''user.py'')),
          TimeNow, TimeNow, ExecRun (test_cmd_timeout 10), TimeNow, Stop 1]
   \<and> clock (slow_env is_stop)
        [TimeNow, create_call (example_judge False) (ustr ''judge-python''), Start, TimeNow, TimeNow,
          PutArchive (ustr ''/app'') (file_tar [] example_config (ustr ''user.py'')),
          TimeNow, TimeNow, ExecRun (test_cmd_timeout 10), TimeNow]
       - clock (slow_env is_stop)
        [TimeNow, create_call (example_judge False) (ustr ''judge-python''), Start, TimeNow, TimeNow,
          PutArchive (ustr ''/app'') (file_tar [] example_config (ustr ''user.py'')),
          TimeNow, TimeNow] = 102"
  by (simp add: engine_defs sim_defs Let_def user_filename_def)


subsection \<open>The batch: its body, its loop and its result lists\<close>

lemma optimized_batch_supported:
  assumes "DOCKER_IMAGES J language = Some img" and "configs \<noteq> []"
  shows "optimized_batch_test J e language user_code configs show_progress ct et =
     (Inr (fst (batch_body J e img language user_code configs show_progress
                  (compile_timeout_val J ct) (execution_timeout_val J et))),
      snd (cleanup e
             (fst (snd (batch_body J e img language user_code configs show_progress
                  (compile_timeout_val J ct) (execution_timeout_val J et))))
             (snd (snd (batch_body J e img language user_code configs show_progress
                  (compile_timeout_val J ct) (execution_timeout_val J et))))))"
  using assms by (simp add: optimized_batch_test_def split_def Let_def try_finally_cleanup)

lemma run_body_container:
  "fst (snd (run_body J e img language user_code config ctv etv))
     \<longleftrightarrow> returns (void_res e [TimeNow, create_call J img])"
  by (simp add: run_body_def call_defs Let_def split_def split: outcome.splits)

lemma batch_body_container:
  "fst (snd (batch_body J e img language user_code configs show_progress ctv etv))
     \<longleftrightarrow> returns (void_res e [TimeNow, create_call J img])"
  by (simp add: batch_body_def call_defs Let_def split_def split: outcome.splits)

lemma batch_body_staged:
  assumes "staged_ok e (staged_history J img (user_code_tar user_code (user_filename language)))"
  shows "batch_body J e img language user_code configs show_progress ctv etv =
     (case compile_step_batch e language ctv (clock e [TimeNow]) (length configs)
             (staged_history J img (user_code_tar user_code (user_filename language))) of
        (Inl rs, h2) \<Rightarrow> (rs, True, h2)
      | (Inr cet, h2) \<Rightarrow>
          (fst (test_loop J e etv (clock e [TimeNow]) cet 0 configs [] h2), True,
           snd (test_loop J e etv (clock e [TimeNow]) cet 0 configs [] h2)
             @ (if show_progress then [TimeNow] else [])))"
  using assms
  by (simp add: staged_ok_def staged_history_def batch_body_def staged_batch_def call_defs
        Let_def split_def split: prod.splits sum.splits)

lemma fan_out_length [simp]: "length (fan_out d n) = n"
  by (simp add: fan_out_def)

lemma fan_out_nth:
  "i < n \<Longrightarrow> fan_out d n ! i = setitem d ''config_index'' (PInt (int i))"
  by (simp add: fan_out_def)

lemma timed_fan_out_length [simp]: "length (fst (timed_fan_out e f js h)) = length js"
  by (induction js arbitrary: h) (simp_all add: call_defs split_def Let_def)

lemma timed_fan_out_nth:
  "i < length js \<Longrightarrow> \<exists>t. fst (timed_fan_out e f js h) ! i = f t (js ! i)"
proof (induction js arbitrary: h i)
  case Nil
  then show ?case by simp
next
  case (Cons j js)
  show ?case
  proof (cases i)
    case 0
    then show ?thesis by (auto simp: call_defs split_def Let_def)
  next
    case (Suc k)
    then have "k < length js" using Cons.prems by simp
    from Cons.IH [OF this, of "h @ [TimeNow]"] show ?thesis
      using Suc by (simp add: call_defs split_def Let_def)
  qed
qed

lemma timed_fan_out_trace:
  "snd (timed_fan_out e f js h) = h @ replicate (length js) TimeNow"
  by (induction js arbitrary: h) (simp_all add: call_defs split_def Let_def replicate_app_Cons_same)

lemmas batch_row_defs = test_error_def test_timeout_def test_unreadable_def



lemma collect_batch_prefix: "prefix h (snd (collect_batch e st cet tst i ec rs h))"
  by (simp add: collect_batch_def batch_row_defs call_defs Let_def
        split: outcome.splits pyval.splits)

lemma config_uploads_append: "config_uploads (h @ t) = config_uploads h @ config_uploads t"
  by (induction h rule: config_uploads.induct) simp_all








lemma config_uploads_create [simp]:
  "config_uploads (create_call J i # h) = config_uploads h"
  by (simp add: create_call_def)

lemma index_fan_out:
  "map (\<lambda>d. getitem d ''config_index'') (fan_out d n) = map (\<lambda>i. Some (PInt (int i))) [0..<n]"
  by (simp add: fan_out_def)

lemma status_fan_out:
  "map (\<lambda>d. getitem d ''status'') (fan_out d n) = replicate n (getitem d ''status'')"
  by (simp add: fan_out_def comp_def map_replicate_const)

lemma index_timed_fan_out:
  assumes "\<And>t i. getitem (f t i) ''config_index'' = Some (PInt (int i))"
  shows "map (\<lambda>d. getitem d ''config_index'') (fst (timed_fan_out e f js h))
           = map (\<lambda>i. Some (PInt (int i))) js"
  by (induction js arbitrary: h) (simp_all add: call_defs split_def Let_def assms)

lemma status_timed_fan_out:
  assumes "\<And>t i. getitem (f t i) ''status'' = s"
  shows "map (\<lambda>d. getitem d ''status'') (fst (timed_fan_out e f js h))
           = replicate (length js) s"
  by (induction js arbitrary: h) (simp_all add: call_defs split_def Let_def assms)

lemma filter_replicate_TimeNow [simp]:
  "filter is_exec (replicate n TimeNow) = []" "filter is_collect (replicate n TimeNow) = []"
  by (induction n) simp_all

lemma config_uploads_replicate_TimeNow [simp]: "config_uploads (replicate n TimeNow) = []"
  by (induction n) simp_all

text \<open>The compile step of the batch when the compilation fails or times out.\<close>

lemma compile_batch_failed:
  fixes e ctv st n h
  defines "hc \<equiv> h @ [TimeNow, ExecRun (compile_cmd ctv)]"
  defines "wall \<equiv> clock e (hc @ [TimeNow]) - clock e (h @ [TimeNow])"
  assumes "case exec_res e hc of
             Raises msg \<Rightarrow> True
           | Returns r \<Rightarrow> wall > real_of_int ctv \<or> exit_code r \<noteq> 0"
  shows "\<exists>rs h'. compile_batch e ctv st n h = (Inl rs, h')
           \<and> map (\<lambda>d. getitem d ''config_index'') rs = map (\<lambda>i. Some (PInt (int i))) [0..<n]
           \<and> map (\<lambda>d. getitem d ''status'') rs
               = replicate n (Some (pstr
                   (case exec_res e hc of
                      Raises msg \<Rightarrow> ''COMPILE_ERROR''
                    | Returns r \<Rightarrow>
                        if wall > real_of_int ctv \<or> exit_code r = 124 then ''COMPILE_TIMEOUT''
                        else ''COMPILE_ERROR'')))
           \<and> filter is_exec h' = filter is_exec h @ [ExecRun (compile_cmd ctv)]
           \<and> filter is_collect h' = filter is_collect h
           \<and> config_uploads h' = config_uploads h"
proof (cases "exec_res e hc")
  case (Raises msg)
  then show ?thesis
    by (simp add: hc_def compile_batch_def call_defs Let_def split_def index_fan_out
          status_fan_out compile_error_def config_uploads_append)
next
  case (Returns r)
  show ?thesis
  proof (cases "wall > real_of_int ctv")
    case True
    then show ?thesis using Returns
      by (simp add: hc_def wall_def compile_batch_def call_defs Let_def split_def
            index_timed_fan_out status_timed_fan_out batch_compile_timeout_row_def
            timed_fan_out_trace config_uploads_append)
  next
    case False
    then have "exit_code r \<noteq> 0" using assms(3) Returns by simp
    then show ?thesis using Returns False
      by (simp add: hc_def wall_def compile_batch_def call_defs Let_def split_def index_fan_out
            status_fan_out compile_timeout_result_def compile_failed_result_def
            config_uploads_append)
  qed
qed

lemma staged_history_quiet [simp]:
  "filter is_exec (staged_history J img tar) = []"
  "filter is_collect (staged_history J img tar) = []"
  "config_uploads (staged_history J img (user_code_tar user_code fn)) = []"
  by (simp_all add: staged_history_def user_code_tar_def)

lemma cleanup_quiet [simp]:
  "filter is_exec (snd (cleanup e c h)) = filter is_exec h"
  "filter is_collect (snd (cleanup e c h)) = filter is_collect h"
  "config_uploads (snd (cleanup e c h)) = config_uploads h"
  by (simp_all add: cleanup_trace config_uploads_append)


subsection \<open>A failed compilation in the batch\<close>

text \<open>
  C5. In \<open>optimized_batch_test\<close> for a compiled language, when the container is created,
  started and loaded and the one compilation fails (the exec raises or exits with a
  nonzero code) or times out (wall time over the limit, or exit code 124), the function
  returns one result per configuration, all with the same status: \<open>COMPILE_TIMEOUT\<close> for
  a timeout, \<open>COMPILE_ERROR\<close> otherwise; the result at position \<open>i\<close> carries
  \<open>config_index = i\<close>. No configuration is uploaded, the compile exec is the only exec
  of the run, and nothing is collected.
\<close>

theorem compile_failure_fan_out:
  fixes J e language user_code configs show_progress ct et img
  defines "ctv \<equiv> compile_timeout_val J ct"
      and "Hb \<equiv> staged_history J img (user_code_tar user_code (user_filename language))"
  defines "Hc \<equiv> Hb @ [TimeNow, ExecRun (compile_cmd ctv)]"
  defines "wall \<equiv> clock e (Hc @ [TimeNow]) - clock e (Hb @ [TimeNow])"
      and "res \<equiv> optimized_batch_test J e language user_code configs show_progress ct et"
  assumes img: "DOCKER_IMAGES J language = Some img"
      and ne: "configs \<noteq> []"
      and lang: "\<not> is_python language"
      and ok: "staged_ok e Hb"
      and failed: "case exec_res e Hc of
                     Raises msg \<Rightarrow> True
                   | Returns r \<Rightarrow> wall > real_of_int ctv \<or> exit_code r \<noteq> 0"
  shows
    "\<not> isl (fst res)
     \<and> map (\<lambda>d. getitem d ''config_index'') (projr (fst res))
         = map (\<lambda>i. Some (PInt (int i))) [0..<length configs]
     \<and> map (\<lambda>d. getitem d ''status'') (projr (fst res))
         = replicate (length configs) (Some (pstr
             (case exec_res e Hc of
                Raises msg \<Rightarrow> ''COMPILE_ERROR''
              | Returns r \<Rightarrow>
                  if wall > real_of_int ctv \<or> exit_code r = 124 then ''COMPILE_TIMEOUT''
                  else ''COMPILE_ERROR'')))
     \<and> filter is_exec (snd res) = [ExecRun (compile_cmd ctv)]
     \<and> filter is_collect (snd res) = []
     \<and> config_uploads (snd res) = []"
proof -
  let ?etv = "execution_timeout_val J et"
  let ?bb = "batch_body J e img language user_code configs show_progress ctv ?etv"
  have rb: "res = (Inr (fst ?bb), snd (cleanup e (fst (snd ?bb)) (snd (snd ?bb))))"
    unfolding res_def ctv_def by (rule optimized_batch_supported [OF img ne])
  from compile_batch_failed [where e = e and h = Hb and ctv = ctv and st = "clock e [TimeNow]"
         and n = "length configs", OF failed [unfolded wall_def Hc_def]]
  obtain rs h' where cb: "compile_batch e ctv (clock e [TimeNow]) (length configs) Hb = (Inl rs, h')"
    and idx: "map (\<lambda>d. getitem d ''config_index'') rs
                = map (\<lambda>i. Some (PInt (int i))) [0..<length configs]"
    and sts: "map (\<lambda>d. getitem d ''status'') rs
         = replicate (length configs) (Some (pstr
             (case exec_res e Hc of
                Raises msg \<Rightarrow> ''COMPILE_ERROR''
              | Returns r \<Rightarrow>
                  if wall > real_of_int ctv \<or> exit_code r = 124 then ''COMPILE_TIMEOUT''
                  else ''COMPILE_ERROR'')))"
    and tr: "filter is_exec h' = filter is_exec Hb @ [ExecRun (compile_cmd ctv)]"
            "filter is_collect h' = filter is_collect Hb"
            "config_uploads h' = config_uploads Hb"
    unfolding wall_def Hc_def by blast
  have body: "?bb = (rs, True, h')"
    using batch_body_staged [OF ok [unfolded Hb_def], of configs show_progress ctv ?etv] lang cb
    by (simp add: compile_step_batch_def Hb_def)
  show ?thesis
    using idx sts tr by (simp add: rb body Hb_def)
qed

theorem compile_failure_fan_out_witness:
  "DOCKER_IMAGES (example_judge False) (ustr ''c'') = Some (ustr ''judge-c'')
   \<and> [example_config, example_config] \<noteq> []
   \<and> \<not> is_python (ustr ''c'')
   \<and> staged_ok broken_build_env
        (staged_history (example_judge False) (ustr ''judge-c'')
           (user_code_tar [] (user_filename (ustr ''c''))))
   \<and> exec_res broken_build_env
        (staged_history (example_judge False) (ustr ''judge-c'')
           (user_code_tar [] (user_filename (ustr ''c'')))
         @ [TimeNow, ExecRun (compile_cmd 30)])
       = Returns \<lparr>exit_code = 1, exec_output = [0x63, 0xFF]\<rparr>
   \<and> map (\<lambda>d. getitem d ''status'')
         (projr (fst (optimized_batch_test (example_judge False) broken_build_env (ustr ''c'') []
                        [example_config, example_config] True None None)))
       = [Some (pstr ''COMPILE_ERROR''), Some (pstr ''COMPILE_ERROR'')]
   \<and> map (\<lambda>d. getitem d ''config_index'')
         (projr (fst (optimized_batch_test (example_judge False) broken_build_env (ustr ''c'') []
                        [example_config, example_config] True None None)))
       = [Some (PInt 0), Some (PInt 1)]
   \<and> filter is_exec
         (snd (optimized_batch_test (example_judge False) broken_build_env (ustr ''c'') []
                 [example_config, example_config] True None None))
       = [ExecRun (compile_cmd 30)]"
proof -
  let ?J = "example_judge False" and ?e = broken_build_env
  let ?Hb = "staged_history ?J (ustr ''judge-c'') (user_code_tar [] (user_filename (ustr ''c'')))"
  have img: "DOCKER_IMAGES ?J (ustr ''c'') = Some (ustr ''judge-c'')" by simp
  have ne: "[example_config, example_config] \<noteq> []" by simp
  have lang: "\<not> is_python (ustr ''c'')" by simp
  have ok: "staged_ok ?e ?Hb" by (simp add: staged_ok_def staged_history_def sim_defs)
  have ctv: "compile_timeout_val ?J None = 30"
    by (simp add: compile_timeout_val_def example_judge_def)
  have x: "exec_res ?e (?Hb @ [TimeNow, ExecRun (compile_cmd 30)])
             = Returns \<lparr>exit_code = 1, exec_output = [0x63, 0xFF]\<rparr>"
    by (simp add: sim_defs staged_history_def)
  have failed: "case exec_res ?e (?Hb @ [TimeNow, ExecRun (compile_cmd (compile_timeout_val ?J None))]) of
                     Raises msg \<Rightarrow> True
                   | Returns r \<Rightarrow>
                       clock ?e ((?Hb @ [TimeNow, ExecRun (compile_cmd (compile_timeout_val ?J None))]) @ [TimeNow])
                         - clock ?e (?Hb @ [TimeNow]) > real_of_int (compile_timeout_val ?J None)
                       \<or> exit_code r \<noteq> 0"
    by (simp add: ctv x)
  show ?thesis
    using compile_failure_fan_out [OF img ne lang ok failed, of True None] img ne lang ok x
    by (simp add: compile_timeout_val_def sim_defs staged_history_def eval_nat_numeral)
qed


subsection \<open>The results of a batch, position by position\<close>



















subsection \<open>Teardown\<close>

lemma create_call_kind_sym [simp]:
  "Stop n \<noteq> create_call J i" "Remove \<noteq> create_call J i"
  by (simp_all add: create_call_def)


text \<open>
  C3 (as amended). For a supported language, whatever the runtime answers and wherever
  a step raises, \<open>run_microservice\<close> returns the dictionary its \<open>try\<close> block computed, and
  \<open>optimized_batch_test\<close> the list its \<open>try\<close> block computed: the teardown changes
  neither and lets no exception out. When the container was created, the calls of the
  teardown come after all the calls of the block: \<open>stop(timeout=1)\<close>, and then \<open>remove\<close>
  if that stop returned; when the stop raises, \<open>remove\<close> is not called. When the creation
  raised there is no teardown.
\<close>

theorem teardown_after_every_exit:
  fixes J e language user_code config configs show_progress ct et img
  defines "ctv \<equiv> compile_timeout_val J ct"
      and "etv \<equiv> execution_timeout_val J et"
  defines "rb \<equiv> run_body J e img language user_code config ctv etv"
      and "bb \<equiv> batch_body J e img language user_code configs show_progress ctv etv"
  assumes img: "DOCKER_IMAGES J language = Some img"
  shows
    "run_microservice J e language user_code config ct et
       = (Inr (fst rb),
          snd (snd rb) @
            (if returns (void_res e [TimeNow, create_call J img]) then
               (if returns (void_res e (snd (snd rb) @ [Stop 1])) then [Stop 1, Remove]
                else [Stop 1])
             else []))
     \<and> (configs \<noteq> [] \<longrightarrow>
          optimized_batch_test J e language user_code configs show_progress ct et
            = (Inr (fst bb),
               snd (snd bb) @
                 (if returns (void_res e [TimeNow, create_call J img]) then
                    (if returns (void_res e (snd (snd bb) @ [Stop 1])) then [Stop 1, Remove]
                     else [Stop 1])
                  else [])))"
proof (intro conjI impI)
  show "run_microservice J e language user_code config ct et
       = (Inr (fst rb),
          snd (snd rb) @
            (if returns (void_res e [TimeNow, create_call J img]) then
               (if returns (void_res e (snd (snd rb) @ [Stop 1])) then [Stop 1, Remove]
                else [Stop 1])
             else []))"
    unfolding rb_def ctv_def etv_def
    by (simp only: run_microservice_supported [OF img] cleanup_trace run_body_container)
next
  assume ne: "configs \<noteq> []"
  show "optimized_batch_test J e language user_code configs show_progress ct et
            = (Inr (fst bb),
               snd (snd bb) @
                 (if returns (void_res e [TimeNow, create_call J img]) then
                    (if returns (void_res e (snd (snd bb) @ [Stop 1])) then [Stop 1, Remove]
                     else [Stop 1])
                  else []))"
    unfolding bb_def ctv_def etv_def
    by (simp only: optimized_batch_supported [OF img ne] cleanup_trace batch_body_container)
qed

theorem teardown_after_every_exit_witness:
  "DOCKER_IMAGES (example_judge False) (ustr ''python'') = Some (ustr ''judge-python'')
   \<and> [example_config] \<noteq> []
   \<and> run_microservice (example_judge False) calm_env (ustr ''python'') [] example_config None None
       = (Inr (fst (run_body (example_judge False) calm_env (ustr ''judge-python'')
                      (ustr ''python'') [] example_config 30 10)),
          snd (snd (run_body (example_judge False) calm_env (ustr ''judge-python'')
                      (ustr ''python'') [] example_config 30 10)) @ [Stop 1, Remove])
   \<and> optimized_batch_test (example_judge False) calm_env (ustr ''python'') [] [example_config]
         True None None
       = (Inr (fst (batch_body (example_judge False) calm_env (ustr ''judge-python'')
                      (ustr ''python'') [] [example_config] True 30 10)),
          snd (snd (batch_body (example_judge False) calm_env (ustr ''judge-python'')
                      (ustr ''python'') [] [example_config] True 30 10)) @ [Stop 1, Remove])"
proof -
  have img: "DOCKER_IMAGES (example_judge False) (ustr ''python'') = Some (ustr ''judge-python'')"
    by simp
  have v: "\<And>h. void_res calm_env h = Returns ()" by (simp add: sim_defs)
  have t: "compile_timeout_val (example_judge False) None = 30"
          "execution_timeout_val (example_judge False) None = 10"
    by (simp_all add: compile_timeout_val_def execution_timeout_val_def example_judge_def)
  show ?thesis
    using teardown_after_every_exit [OF img, of calm_env "[]" example_config None None "[example_config]" True]
    by (simp add: v t)
qed


text \<open>The claim as stated fails: when the stop of the teardown raises, the run ends
  with that call and the container is never removed.\<close>

theorem container_left_when_stop_fails:
  "void_res stop_fails_env [TimeNow, create_call (example_judge False) (ustr ''judge-python'')]
     = Returns ()
   \<and> snd (run_microservice (example_judge False) stop_fails_env (ustr ''python'') []
             example_config None None)
     = [TimeNow, create_call (example_judge False) (ustr ''judge-python''), Start, TimeNow, TimeNow,
        PutArchive (ustr ''/app'') (file_tar [] example_config (ustr ''user.py'')),
        TimeNow, TimeNow, ExecRun (test_cmd_timeout 10), TimeNow,
        GetResult (ustr ''/app/result.json''), TimeNow, TimeNow, TimeNow, Stop 1]
   \<and> Remove \<notin> set (snd (run_microservice (example_judge False) stop_fails_env (ustr ''python'')
                           [] example_config None None))"
  by (simp add: engine_defs sim_defs Let_def user_filename_def)

subsection \<open>Running with \<open>continue_on_timeout\<close>\<close>

lemma execute_single_cot:
  assumes "continue_on_timeout J"
      and "exec_res e (h @ [TimeNow, ExecRun test_cmd_plain]) = Returns r"
  shows "execute_single J e etv st cst h =
           collect_single e st cst (clock e (h @ [TimeNow])) (exit_code r)
             (h @ [TimeNow, ExecRun test_cmd_plain])"
  using assms by (simp add: execute_single_def call_defs Let_def)

lemma one_test_cot:
  assumes "continue_on_timeout J"
      and "returns (void_res e (h @ [TimeNow, TimeNow, PutArchive (ustr ''/app'') (config_tar config)]))"
      and "exec_res e (h @ [TimeNow, TimeNow, PutArchive (ustr ''/app'') (config_tar config),
                            ExecRun test_cmd_plain]) = Returns r"
  shows "one_test J e etv st cet i config rs h =
           collect_batch e st cet (clock e (h @ [TimeNow])) i (exit_code r) rs
             (h @ [TimeNow, TimeNow, PutArchive (ustr ''/app'') (config_tar config),
                   ExecRun test_cmd_plain])"
  using assms by (simp add: one_test_def call_defs Let_def)

lemma one_test_start:
  assumes "returns (void_res e (h @ [TimeNow, TimeNow, PutArchive (ustr ''/app'') (config_tar config)]))"
  shows "prefix (h @ [TimeNow, TimeNow, PutArchive (ustr ''/app'') (config_tar config),
                      ExecRun (if continue_on_timeout J then test_cmd_plain
                               else test_cmd_timeout etv)])
           (snd (one_test J e etv st cet i config rs h))"
proof -
  let ?hx = "h @ [TimeNow, TimeNow, PutArchive (ustr ''/app'') (config_tar config),
                      ExecRun (if continue_on_timeout J then test_cmd_plain
                               else test_cmd_timeout etv)]"
  have c: "\<And>tst ec. prefix ?hx (snd (collect_batch e st cet tst i ec rs ?hx))"
    by (rule collect_batch_prefix)
  have c': "\<And>tst ec. prefix ?hx (snd (collect_batch e st cet tst i ec rs (?hx @ [TimeNow])))"
    by (rule prefix_appendD [OF collect_batch_prefix])
  show ?thesis
    using assms c c'
    by (cases "continue_on_timeout J")
       (simp_all add: one_test_def batch_row_defs call_defs Let_def split: outcome.splits)
qed

lemma collect_batch_dict:
  assumes "collect_res e (h @ [GetResult (ustr ''/app/result.json'')]) = Returns (PDict d0)"
  shows "getitem (last (fst (collect_batch e st cet tst i ec rs h))) ''status''
           = getitem d0 ''status''"
  using assms by (simp add: collect_batch_def call_defs Let_def)

lemma collect_batch_raises:
  assumes "collect_res e (h @ [GetResult (ustr ''/app/result.json'')]) = Raises msg"
  shows "getitem (last (fst (collect_batch e st cet tst i ec rs h))) ''status''
           = Some (pstr ''ERROR'')"
  using assms by (simp add: collect_batch_def call_defs Let_def test_unreadable_def)

text \<open>
  C6 (as amended). With \<open>continue_on_timeout\<close> on, the test exec of \<open>run_microservice\<close>
  and of the loop of \<open>optimized_batch_test\<close> is issued with the command without the
  \<open>timeout\<close> wrapper, and no timeout classification is made at all: once the exec has
  returned, whatever its exit code and however long it took, the engine collects the
  result, so that a JSON object found is returned with the runner's own status (the
  wall time is only written to \<open>test_execution_time\<close>), and a collection that raises
  gives \<open>ERROR\<close>.
\<close>

theorem continue_on_timeout_plain_exec:
  fixes J e language user_code config ct et img
  defines "ctv \<equiv> compile_timeout_val J ct"
      and "etv \<equiv> execution_timeout_val J et"
      and "H \<equiv> staged_history J img (file_tar user_code config (user_filename language))"
      and "st \<equiv> clock e [TimeNow]"
      and "res \<equiv> run_microservice J e language user_code config ct et"
  assumes img: "DOCKER_IMAGES J language = Some img"
      and cot: "continue_on_timeout J"
  shows
    "\<not> sublist (ustr ''timeout'') test_cmd_plain
     \<and> (\<forall>cst h.
          staged_ok e H \<and> compile_step e language ctv st H = (Inr cst, h) \<longrightarrow>
          (let hx = h @ [TimeNow, ExecRun test_cmd_plain];
               hg = hx @ [GetResult (ustr ''/app/result.json'')];
               d = projr (fst res)
           in prefix hx (snd res)
              \<and> (\<forall>r. exec_res e hx = Returns r \<longrightarrow>
                    prefix hg (snd res)
                    \<and> (\<forall>d0. collect_res e hg = Returns (PDict d0) \<longrightarrow>
                          getitem d ''status'' = getitem d0 ''status''
                          \<and> getitem d ''test_execution_time''
                              = Some (PFloat (clock e (hg @ [TimeNow, TimeNow])
                                              - clock e (h @ [TimeNow]))))
                    \<and> (\<forall>msg. collect_res e hg = Raises msg \<longrightarrow>
                          getitem d ''status'' = Some (pstr ''ERROR'')))))
     \<and> (\<forall>cet i cfg rs h.
          returns (void_res e (h @ [TimeNow, TimeNow, PutArchive (ustr ''/app'') (config_tar cfg)])) \<longrightarrow>
          (let hx = h @ [TimeNow, TimeNow, PutArchive (ustr ''/app'') (config_tar cfg),
                         ExecRun test_cmd_plain];
               hg = hx @ [GetResult (ustr ''/app/result.json'')];
               d = last (fst (one_test J e etv st cet i cfg rs h))
           in prefix hx (snd (one_test J e etv st cet i cfg rs h))
              \<and> (\<forall>r. exec_res e hx = Returns r \<longrightarrow>
                    (\<forall>d0. collect_res e hg = Returns (PDict d0) \<longrightarrow>
                          getitem d ''status'' = getitem d0 ''status'')
                    \<and> (\<forall>msg. collect_res e hg = Raises msg \<longrightarrow>
                          getitem d ''status'' = Some (pstr ''ERROR'')))))"
proof (intro conjI allI impI)
  show "\<not> sublist (ustr ''timeout'') test_cmd_plain" by (rule no_timeout_in_plain)
next
  fix cst h
  assume a: "staged_ok e H \<and> compile_step e language ctv st H = (Inr cst, h)"
  then have ok: "staged_ok e H" and c: "compile_step e language ctv st H = (Inr cst, h)" by auto
  have rb: "res = (Inr (fst (run_body J e img language user_code config ctv etv)),
      snd (cleanup e (fst (snd (run_body J e img language user_code config ctv etv)))
             (snd (snd (run_body J e img language user_code config ctv etv)))))"
    unfolding res_def ctv_def etv_def by (rule run_microservice_supported [OF img])
  note body = run_body_staged [OF ok [unfolded H_def], of ctv etv, folded H_def st_def]
  define hx where "hx = h @ [TimeNow, ExecRun test_cmd_plain]"
  define hg where "hg = hx @ [GetResult (ustr ''/app/result.json'')]"
  define d where "d = projr (fst res)"
  have d: "d = fst (execute_single J e etv st cst h)" by (simp add: d_def rb body c)
  have tr: "snd res = snd (cleanup e True (snd (execute_single J e etv st cst h)))"
    by (simp add: rb body c)
  have 1: "prefix hx (snd res)"
  proof -
    have "prefix hx (snd (execute_single J e etv st cst h))"
      using execute_single_start [of h J etv e st cst] cot by (simp add: hx_def)
    then show ?thesis unfolding tr using cleanup_prefix prefix_order.trans by metis
  qed
  have 2: "prefix hg (snd res)" if x: "exec_res e hx = Returns r" for r
  proof -
    have "prefix hg (snd (execute_single J e etv st cst h))"
      unfolding execute_single_cot [OF cot x [unfolded hx_def]] hg_def hx_def
      by (rule collect_single_start)
    then show ?thesis unfolding tr using cleanup_prefix prefix_order.trans by metis
  qed
  have 3: "getitem d ''status'' = getitem d0 ''status''
           \<and> getitem d ''test_execution_time''
                = Some (PFloat (clock e (hg @ [TimeNow, TimeNow]) - clock e (h @ [TimeNow])))"
    if x: "exec_res e hx = Returns r" and g: "collect_res e hg = Returns (PDict d0)" for r d0
    using collect_single_dict [OF g [unfolded hg_def], of st cst "clock e (h @ [TimeNow])" "exit_code r"]
    by (simp add: d execute_single_cot [OF cot x [unfolded hx_def]] hx_def hg_def)
  have 4: "getitem d ''status'' = Some (pstr ''ERROR'')"
    if x: "exec_res e hx = Returns r" and g: "collect_res e hg = Raises msg" for r msg
    using collect_single_raises(1) [OF g [unfolded hg_def], of st cst "clock e (h @ [TimeNow])" "exit_code r"]
    by (simp add: d execute_single_cot [OF cot x [unfolded hx_def]] hx_def)
  show "let hx = h @ [TimeNow, ExecRun test_cmd_plain];
               hg = hx @ [GetResult (ustr ''/app/result.json'')];
               d = projr (fst res)
           in prefix hx (snd res)
              \<and> (\<forall>r. exec_res e hx = Returns r \<longrightarrow>
                    prefix hg (snd res)
                    \<and> (\<forall>d0. collect_res e hg = Returns (PDict d0) \<longrightarrow>
                          getitem d ''status'' = getitem d0 ''status''
                          \<and> getitem d ''test_execution_time''
                              = Some (PFloat (clock e (hg @ [TimeNow, TimeNow])
                                              - clock e (h @ [TimeNow]))))
                    \<and> (\<forall>msg. collect_res e hg = Raises msg \<longrightarrow>
                          getitem d ''status'' = Some (pstr ''ERROR'')))"
    unfolding Let_def hx_def [symmetric] hg_def [symmetric] d_def [symmetric]
    using 1 2 3 4 by blast
next
  fix cet i cfg rs h
  assume put: "returns (void_res e (h @ [TimeNow, TimeNow, PutArchive (ustr ''/app'') (config_tar cfg)]))"
  define hx where "hx = h @ [TimeNow, TimeNow, PutArchive (ustr ''/app'') (config_tar cfg),
                         ExecRun test_cmd_plain]"
  define hg where "hg = hx @ [GetResult (ustr ''/app/result.json'')]"
  define d where "d = last (fst (one_test J e etv st cet i cfg rs h))"
  have 1: "prefix hx (snd (one_test J e etv st cet i cfg rs h))"
    using one_test_start [OF put, of J etv st cet i rs] cot by (simp add: hx_def)
  have 2: "getitem d ''status'' = getitem d0 ''status''"
    if x: "exec_res e hx = Returns r" and g: "collect_res e hg = Returns (PDict d0)" for r d0
    unfolding d_def one_test_cot [OF cot put x [unfolded hx_def]]
    using collect_batch_dict [OF g [unfolded hg_def hx_def]] .
  have 3: "getitem d ''status'' = Some (pstr ''ERROR'')"
    if x: "exec_res e hx = Returns r" and g: "collect_res e hg = Raises msg" for r msg
    unfolding d_def one_test_cot [OF cot put x [unfolded hx_def]]
    using collect_batch_raises [OF g [unfolded hg_def hx_def]] .
  show "let hx = h @ [TimeNow, TimeNow, PutArchive (ustr ''/app'') (config_tar cfg),
                         ExecRun test_cmd_plain];
               hg = hx @ [GetResult (ustr ''/app/result.json'')];
               d = last (fst (one_test J e etv st cet i cfg rs h))
           in prefix hx (snd (one_test J e etv st cet i cfg rs h))
              \<and> (\<forall>r. exec_res e hx = Returns r \<longrightarrow>
                    (\<forall>d0. collect_res e hg = Returns (PDict d0) \<longrightarrow>
                          getitem d ''status'' = getitem d0 ''status'')
                    \<and> (\<forall>msg. collect_res e hg = Raises msg \<longrightarrow>
                          getitem d ''status'' = Some (pstr ''ERROR'')))"
    unfolding Let_def hx_def [symmetric] hg_def [symmetric] d_def [symmetric]
    using 1 2 3 by blast
qed

theorem continue_on_timeout_plain_exec_witness:
  "DOCKER_IMAGES (example_judge True) (ustr ''python'') = Some (ustr ''judge-python'')
   \<and> continue_on_timeout (example_judge True)
   \<and> staged_ok (slow_env never)
        (staged_history (example_judge True) (ustr ''judge-python'')
           (file_tar [] example_config (user_filename (ustr ''python''))))
   \<and> prefix (staged_history (example_judge True) (ustr ''judge-python'')
                (file_tar [] example_config (user_filename (ustr ''python'')))
              @ [TimeNow, TimeNow, ExecRun test_cmd_plain, GetResult (ustr ''/app/result.json'')])
        (snd (run_microservice (example_judge True) (slow_env never) (ustr ''python'') []
                example_config None None))
   \<and> getitem (projr (fst (run_microservice (example_judge True) (slow_env never)
                            (ustr ''python'') [] example_config None None))) ''status''
       = Some (pstr ''SUCCESS'')"
proof -
  let ?J = "example_judge True" and ?e = "slow_env never"
  let ?H = "staged_history ?J (ustr ''judge-python'')
              (file_tar [] example_config (user_filename (ustr ''python'')))"
  have img: "DOCKER_IMAGES ?J (ustr ''python'') = Some (ustr ''judge-python'')" by simp
  have cot: "continue_on_timeout ?J" by (simp add: example_judge_def)
  have ok: "staged_ok ?e ?H" by (simp add: staged_ok_def staged_history_def sim_defs)
  have c: "compile_step ?e (ustr ''python'') (compile_timeout_val ?J None) (clock ?e [TimeNow]) ?H
             = (Inr 7, ?H @ [TimeNow])"
    by (simp add: compile_step_def call_defs staged_history_def sim_defs)
  have "prefix (?H @ [TimeNow, TimeNow, ExecRun test_cmd_plain, GetResult (ustr ''/app/result.json'')])
          (snd (run_microservice ?J ?e (ustr ''python'') [] example_config None None))
        \<and> getitem (projr (fst (run_microservice ?J ?e (ustr ''python'') [] example_config None None)))
          ''status'' = Some (pstr ''SUCCESS'')"
    using continue_on_timeout_plain_exec [OF img cot, of ?e "[]" example_config None None,
            THEN conjunct2, THEN conjunct1,
            THEN spec [where x = "7::real"], THEN spec [where x = "?H @ [TimeNow]"],
            THEN mp, OF conjI [OF ok c]]
    by (simp add: Let_def staged_history_def sim_defs)
  then show ?thesis using img cot ok by blast
qed


text \<open>The claim as stated fails: a test that took 104 seconds under a limit of 10 is
  returned with the runner's \<open>SUCCESS\<close>; the wall time is observed but classifies
  nothing.\<close>

theorem slow_test_is_not_a_timeout:
  "continue_on_timeout (example_judge True)
   \<and> execution_timeout_val (example_judge True) None = 10
   \<and> getitem (projr (fst (run_microservice (example_judge True) (slow_env never)
                            (ustr ''python'') [] example_config None None))) ''status''
       = Some (pstr ''SUCCESS'')
   \<and> getitem (projr (fst (run_microservice (example_judge True) (slow_env never)
                            (ustr ''python'') [] example_config None None)))
         ''test_execution_time''
       = Some (PFloat 104)
   \<and> snd (run_microservice (example_judge True) (slow_env never) (ustr ''python'') []
             example_config None None)
     = [TimeNow, create_call (example_judge True) (ustr ''judge-python''), Start, TimeNow, TimeNow,
        PutArchive (ustr ''/app'') (file_tar [] example_config (ustr ''user.py'')),
        TimeNow, TimeNow, ExecRun test_cmd_plain,
        GetResult (ustr ''/app/result.json''), TimeNow, TimeNow, TimeNow, Stop 1, Remove]"
  by (simp add: engine_defs sim_defs Let_def user_filename_def)


subsection \<open>The status of the response\<close>






lemma error_response_status [simp]: "resp_status (error_response x) = ERROR"
  by (simp add: error_response_def)




end
